theory Spec2Isabelle
  imports Complex_Main "HOL-Library.Multiset"
begin

section \<open>Numbers and vectors\<close>

text \<open>
  The TypeScript type \<open>number\<close> is modelled by \<^typ>\<open>real\<close>: arithmetic is exact, and
  there is no NaN and no Infinity. A division by zero is \<open>0\<close> here and NaN or Infinity
  there, \<open>sqrt\<close> of a negative number is a negative number here and NaN there, and no
  result is rounded. The theorems of this theory are of two kinds, and neither rests on
  the difference. The intersections are evaluated on the concrete shapes that the
  properties name; they meet no division by zero and no root of a negative number. The
  theorems about the quadtree use the outcomes of the tests that \<open>insert\<close>, \<open>subdivide\<close>
  and \<open>query\<close> make and the structure of the tree, not the numbers behind the outcomes:
  that \<open>intersects\<close> returns an array, that a child's boundary is the rectangle its
  parent tested, that a child is made one layer down and only below \<open>MAX_DEPTH\<close>. The
  one sum they reason about is \<open>depthLayer + 1\<close>, in the count of the layers. Where a
  quadtree is built on concrete numbers, these are integers and their repeated halves,
  which the code's numbers represent exactly.

  The selectors of a vector are called \<open>vx\<close> and \<open>vy\<close> (the fields \<open>x\<close> and \<open>y\<close>).
  A parameter of type \<open>Vector2D | number\<close> is a value of type \<open>operand\<close>; the
  \<open>typeof v === "number"\<close> test is the case distinction on it. The conversions
  \<open>polar\<close> and \<open>cartesian\<close> are left out: what is of interest in them is the rounding of
  \<open>sqrt\<close>, \<open>atan2\<close>, \<open>cos\<close> and \<open>sin\<close>, which exact numbers do not have.
\<close>

datatype vector2d = Vector2D (vx: real) (vy: real)

datatype operand = Num real | Vec vector2d

definition Vector2D_epsilon :: real where
  "Vector2D_epsilon = 1 / 1000"

fun hasDuplicate :: "vector2d list \<Rightarrow> vector2d \<Rightarrow> bool" where
  "hasDuplicate [] currV = False"
| "hasDuplicate (p # prev) currV =
     (if \<bar>vx currV - vx p\<bar> < Vector2D_epsilon \<and> \<bar>vy currV - vy p\<bar> < Vector2D_epsilon
      then True else hasDuplicate prev currV)"

definition Vector2D_filterDuplicateVectors :: "vector2d list \<Rightarrow> vector2d list" where
  "Vector2D_filterDuplicateVectors vectors =
     foldl (\<lambda>prev currV. if hasDuplicate prev currV then prev else prev @ [currV]) [] vectors"

definition Vector2D_magnitude :: "vector2d \<Rightarrow> real" where
  "Vector2D_magnitude v = sqrt (vx v * vx v + vy v * vy v)"

definition Vector2D_magnitudeSquared :: "vector2d \<Rightarrow> real" where
  "Vector2D_magnitudeSquared v = vx v * vx v + vy v * vy v"

definition Vector2D_normalized :: "vector2d \<Rightarrow> vector2d" where
  "Vector2D_normalized v =
     (let rad = 1 / Vector2D_magnitude v in Vector2D (vx v * rad) (vy v * rad))"

definition Vector2D_perp :: "vector2d \<Rightarrow> vector2d" where
  "Vector2D_perp v = Vector2D (vy v * - 1) (vx v)"

definition Vector2D_dot :: "vector2d \<Rightarrow> vector2d \<Rightarrow> real" where
  "Vector2D_dot a v = vx a * vx v + vy a * vy v"

definition Vector2D_cross :: "vector2d \<Rightarrow> vector2d \<Rightarrow> real" where
  "Vector2D_cross a v = vx a * vx v - vy a * vy v"

fun Vector2D_multiply :: "vector2d \<Rightarrow> operand \<Rightarrow> vector2d" where
  "Vector2D_multiply a (Num v) = Vector2D (vx a * v) (vy a * v)"
| "Vector2D_multiply a (Vec v) = Vector2D (vx a * vx v) (vy a * vy v)"

fun Vector2D_addBy :: "vector2d \<Rightarrow> operand \<Rightarrow> vector2d" where
  "Vector2D_addBy a (Num v) = Vector2D (vx a + v) (vy a + v)"
| "Vector2D_addBy a (Vec v) = Vector2D (vx a + vx v) (vy a + vy v)"

fun Vector2D_subtractBy :: "vector2d \<Rightarrow> operand \<Rightarrow> vector2d" where
  "Vector2D_subtractBy a (Num v) = Vector2D (vx a - v) (vy a - v)"
| "Vector2D_subtractBy a (Vec v) = Vector2D (vx a - vx v) (vy a - vy v)"

fun Vector2D_subtractFrom :: "vector2d \<Rightarrow> operand \<Rightarrow> vector2d" where
  "Vector2D_subtractFrom a (Num v) = Vector2D (v - vx a) (v - vy a)"
| "Vector2D_subtractFrom a (Vec v) = Vector2D (vx v - vx a) (vy v - vy a)"

definition Vector2D_eq :: "vector2d \<Rightarrow> vector2d \<Rightarrow> bool" where
  "Vector2D_eq a v = (vx a = vx v \<and> vy a = vy v)"

definition Vector2D_neq :: "vector2d \<Rightarrow> vector2d \<Rightarrow> bool" where
  "Vector2D_neq a v = (vx a = vx v \<and> vy a = vy v)"

text \<open>
  Modelled from the spec: \<open>clamp\<close> of \<open>lib/utils\<close>, which the geometry imports and whose
  source is not part of the repository snapshot. The spec gives clamping as
  \<open>max(min, min(max, self))\<close>, and the test of the utilities expects
  \<open>clamp(5, 0, 4) = 4\<close>.
\<close>

definition clamp :: "real \<Rightarrow> real \<Rightarrow> real \<Rightarrow> real" where
  "clamp v lo hi = max lo (min hi v)"

definition minMax :: "real \<Rightarrow> real \<Rightarrow> real \<times> real" where
  "minMax first second = (min first second, max first second)"

section \<open>The shape kernel\<close>

text \<open>
  The six classes that extend \<open>Shape\<close>. The type \<open>shape\<close> is the closed union the
  \<open>isPoint()\<close>, \<open>isLine()\<close>, ... tests discriminate; its constructors are listed in the
  order in which every dispatcher tests them. A private method \<open>#m\<close> of class \<open>C\<close> is the
  constant \<open>C_m\<close>. Where a method calls a public dispatcher on an argument whose class is
  fixed at the call site (\<open>this.contains(new Point(...))\<close>), the model calls the private
  method the dispatcher selects.
\<close>

datatype point = Point (point_position: vector2d)

datatype line = Line (line_start: vector2d) (line_end: vector2d)

datatype rectangle = Rectangle (rect_position: vector2d) (rect_dimensions: vector2d)

datatype circle = Circle (circle_position: vector2d) (circle_radius: real)

datatype ray = Ray (ray_origin: vector2d) (ray_direction: vector2d)

datatype triangle = Triangle (tri_top: vector2d) (tri_right: vector2d) (tri_left: vector2d)

datatype shape =
    PointS point
  | LineS line
  | RectangleS rectangle
  | TriangleS triangle
  | CircleS circle
  | RayS ray

subsection \<open>Point\<close>

definition Point_containsPoint :: "point \<Rightarrow> point \<Rightarrow> bool" where
  "Point_containsPoint this shape =
     (Vector2D_magnitudeSquared
        (Vector2D_subtractBy (point_position this) (Vec (point_position shape)))
      < Vector2D_epsilon)"

fun Point_contains :: "point \<Rightarrow> shape \<Rightarrow> bool" where
  "Point_contains this (PointS s) = Point_containsPoint this s"
| "Point_contains this (LineS s) = False"
| "Point_contains this (RectangleS s) = False"
| "Point_contains this (TriangleS s) = False"
| "Point_contains this (CircleS s) = False"
| "Point_contains this (RayS s) = False"

definition Point_intersects :: "point \<Rightarrow> shape \<Rightarrow> vector2d list" where
  "Point_intersects this shape = []"

subsection \<open>Line\<close>

definition Line_vector :: "line \<Rightarrow> vector2d" where
  "Line_vector this = Vector2D_subtractBy (line_end this) (Vec (line_start this))"

definition Line_closestPoint :: "line \<Rightarrow> point \<Rightarrow> vector2d" where
  "Line_closestPoint this shape =
     (let len = Line_vector this;
          unitDis = clamp
            (Vector2D_dot len (Vector2D_subtractBy (point_position shape) (Vec (line_start this)))
               / Vector2D_magnitudeSquared len) 0 1
      in Vector2D_addBy (line_start this) (Vec (Vector2D_multiply len (Num unitDis))))"

definition Line_overlapsLine :: "line \<Rightarrow> line \<Rightarrow> bool" where
  "Line_overlapsLine this shape =
     (let distance =
            (vy (line_end shape) - vy (line_start shape)) * (vx (line_end this) - vx (line_start this))
          - (vx (line_end shape) - vx (line_start shape)) * (vy (line_end this) - vy (line_start this));
          unitA =
            ((vx (line_end shape) - vx (line_start shape)) * (vy (line_start this) - vy (line_start shape))
             - (vy (line_end shape) - vy (line_start shape)) * (vx (line_start this) - vx (line_start shape)))
            / distance;
          unitB =
            ((vx (line_end this) - vx (line_start this)) * (vy (line_start this) - vy (line_start shape))
             - (vy (line_end this) - vy (line_start this)) * (vx (line_start this) - vx (line_start shape)))
            / distance
      in 0 \<le> unitA \<and> unitA \<le> 1 \<and> 0 \<le> unitB \<and> unitB \<le> 1)"

definition Line_containsPoint :: "line \<Rightarrow> point \<Rightarrow> bool" where
  "Line_containsPoint this shape =
     (let d = (vx (point_position shape) - vx (line_start this)) * (vy (line_end this) - vy (line_start this))
            - (vy (point_position shape) - vy (line_start this)) * (vx (line_end this) - vx (line_start this))
      in if \<bar>d\<bar> < Vector2D_epsilon
         then (let unit =
                     Vector2D_dot (Line_vector this)
                       (Vector2D_subtractBy (point_position shape) (Vec (line_start this)))
                     / Vector2D_magnitudeSquared (Line_vector this)
               in 0 \<le> unit \<and> unit \<le> 1)
         else False)"

definition Line_overlapsPoint :: "line \<Rightarrow> point \<Rightarrow> bool" where
  "Line_overlapsPoint this shape = Line_containsPoint this shape"

definition Line_containsLine :: "line \<Rightarrow> line \<Rightarrow> bool" where
  "Line_containsLine this shape =
     (Line_overlapsPoint this (Point (line_start shape))
      \<and> Line_overlapsPoint this (Point (line_end shape)))"

fun Line_contains :: "line \<Rightarrow> shape \<Rightarrow> bool" where
  "Line_contains this (PointS s) = Line_containsPoint this s"
| "Line_contains this (LineS s) = Line_containsLine this s"
| "Line_contains this (RectangleS s) = False"
| "Line_contains this (TriangleS s) = False"
| "Line_contains this (CircleS s) = False"
| "Line_contains this (RayS s) = False"

definition Line_intersectsPoint :: "line \<Rightarrow> point \<Rightarrow> vector2d list" where
  "Line_intersectsPoint this shape =
     (if Line_containsPoint this shape then [point_position shape] else [])"

definition Line_intersectsLine :: "line \<Rightarrow> line \<Rightarrow> vector2d list" where
  "Line_intersectsLine this shape =
     (let rd = Vector2D_cross (Line_vector this) (Line_vector shape)
      in if rd = 0 then []
         else
           (let inverseRd = 1 / rd;
                rn =
                  ((vx (line_end shape) - vx (line_start shape)) * (vy (line_start this) - vy (line_start shape))
                   - (vy (line_end shape) - vy (line_start shape)) * (vx (line_start this) - vx (line_start shape)))
                  * inverseRd;
                sn =
                  ((vx (line_end this) - vx (line_start this)) * (vy (line_start this) - vy (line_start shape))
                   - (vy (line_end this) - vy (line_start this)) * (vx (line_start this) - vx (line_start shape)))
                  * inverseRd
            in if rn < 0 \<or> rn > 1 \<or> sn < 0 \<or> sn > 1 then []
               else [Vector2D_multiply (Vector2D_addBy (line_start this) (Num rn))
                       (Vec (Line_vector this))]))"

definition Line_side :: "line \<Rightarrow> vector2d \<Rightarrow> real" where
  "Line_side this point =
     (let d = Vector2D_cross (Line_vector this)
                (Vector2D_subtractFrom (line_start this) (Vec point))
      in if d < 0 then - 1 else if d > 0 then 1 else 0)"

subsection \<open>Sides of rectangles and triangles\<close>

definition Rectangle_top :: "rectangle \<Rightarrow> line" where
  "Rectangle_top this =
     Line (rect_position this)
       (Vector2D (vx (rect_position this) + vx (rect_dimensions this)) (vy (rect_position this)))"

definition Rectangle_bottom :: "rectangle \<Rightarrow> line" where
  "Rectangle_bottom this =
     Line (Vector2D (vx (rect_position this)) (vy (rect_position this) + vy (rect_dimensions this)))
       (Vector2D_addBy (rect_position this) (Vec (rect_dimensions this)))"

definition Rectangle_left :: "rectangle \<Rightarrow> line" where
  "Rectangle_left this =
     Line (rect_position this)
       (Vector2D (vx (rect_position this)) (vy (rect_position this) + vy (rect_dimensions this)))"

definition Rectangle_right :: "rectangle \<Rightarrow> line" where
  "Rectangle_right this =
     Line (Vector2D (vx (rect_position this) + vx (rect_dimensions this)) (vy (rect_position this)))
       (Vector2D_addBy (rect_position this) (Vec (rect_dimensions this)))"

text \<open>
  \<open>side(index)\<close> masks the index with \<open>0b11\<close>; on the indices \<open>0..3\<close> that the loops
  pass this is \<open>index mod 4\<close>, and the final \<open>throw\<close> cannot be reached.
\<close>

definition Rectangle_side :: "rectangle \<Rightarrow> nat \<Rightarrow> line" where
  "Rectangle_side this index =
     (if index mod 4 = 0 then Rectangle_top this
      else if index mod 4 = 1 then Rectangle_right this
      else if index mod 4 = 2 then Rectangle_bottom this
      else Rectangle_left this)"

definition Rectangle_sideCount :: "rectangle \<Rightarrow> nat" where
  "Rectangle_sideCount this = 4"

text \<open>The field \<open>position\<close> of a triangle is the array \<open>[top, right, left]\<close>.\<close>

definition Triangle_position :: "triangle \<Rightarrow> nat \<Rightarrow> vector2d" where
  "Triangle_position this i =
     (if i = 0 then tri_top this else if i = 1 then tri_right this else tri_left this)"

definition Triangle_side :: "triangle \<Rightarrow> nat \<Rightarrow> line" where
  "Triangle_side this index =
     Line (Triangle_position this (index mod 3)) (Triangle_position this ((index + 1) mod 3))"

definition Triangle_sideCount :: "triangle \<Rightarrow> nat" where
  "Triangle_sideCount this = 3"

text \<open>
  The loops \<open>for (let i = 0; i < sideCount(); ++i)\<close>: one returns at the first side that
  contains the point, the others push every side's intersections onto one array.
\<close>

fun intersectsPointLoop :: "(nat \<Rightarrow> line) \<Rightarrow> point \<Rightarrow> nat list \<Rightarrow> vector2d list" where
  "intersectsPointLoop side shape [] = []"
| "intersectsPointLoop side shape (i # is) =
     (if Line_containsPoint (side i) shape then [point_position shape]
      else intersectsPointLoop side shape is)"

definition pushAll :: "(nat \<Rightarrow> vector2d list) \<Rightarrow> nat \<Rightarrow> vector2d list" where
  "pushAll v sideCount = concat (map v [0..<sideCount])"

subsection \<open>Rectangle\<close>

definition Rectangle_overlapsRectangle :: "rectangle \<Rightarrow> rectangle \<Rightarrow> bool" where
  "Rectangle_overlapsRectangle this shape =
     (vx (rect_position this) \<le> vx (rect_position shape) + vx (rect_dimensions shape)
      \<and> vx (rect_position this) + vx (rect_dimensions this) \<ge> vx (rect_position shape)
      \<and> vy (rect_position this) \<le> vy (rect_position shape) + vy (rect_dimensions shape)
      \<and> vy (rect_position this) + vy (rect_dimensions this) \<ge> vy (rect_position shape))"

definition Rectangle_containsPoint :: "rectangle \<Rightarrow> point \<Rightarrow> bool" where
  "Rectangle_containsPoint this shape =
     (\<not> (vx (point_position shape) < vx (rect_position this)
         \<or> vy (point_position shape) < vy (rect_position this)
         \<or> vx (point_position shape) > vx (rect_position this) + vx (rect_dimensions this)
         \<or> vy (point_position shape) > vy (rect_position this) + vy (rect_dimensions this)))"

definition Rectangle_containsLine :: "rectangle \<Rightarrow> line \<Rightarrow> bool" where
  "Rectangle_containsLine this shape =
     (Rectangle_containsPoint this (Point (line_start shape))
      \<and> Rectangle_containsPoint this (Point (line_end shape)))"

definition Rectangle_containsRectangle :: "rectangle \<Rightarrow> rectangle \<Rightarrow> bool" where
  "Rectangle_containsRectangle this shape =
     (vx (rect_position shape) \<ge> vx (rect_position this)
      \<and> vx (rect_position shape) + vx (rect_dimensions shape)
          \<le> vx (rect_position this) + vx (rect_dimensions this)
      \<and> vy (rect_position shape) \<ge> vy (rect_position this)
      \<and> vy (rect_position shape) + vy (rect_dimensions shape)
          \<le> vy (rect_position this) + vy (rect_dimensions this))"

definition Rectangle_containsTriangle :: "rectangle \<Rightarrow> triangle \<Rightarrow> bool" where
  "Rectangle_containsTriangle this shape =
     (Rectangle_containsLine this (Triangle_side shape 0)
      \<and> Rectangle_containsLine this (Triangle_side shape 1)
      \<and> Rectangle_containsLine this (Triangle_side shape 2))"

definition Rectangle_containsCircle :: "rectangle \<Rightarrow> circle \<Rightarrow> bool" where
  "Rectangle_containsCircle this shape =
     (vx (rect_position this) + circle_radius shape \<le> vx (circle_position shape)
      \<and> vx (circle_position shape)
          \<le> vx (rect_position this) + vx (rect_dimensions this) - circle_radius shape
      \<and> vy (rect_position this) + circle_radius shape \<le> vy (circle_position shape)
      \<and> vy (circle_position shape)
          \<le> vy (rect_position this) + vy (rect_dimensions this) - circle_radius shape)"

fun Rectangle_contains :: "rectangle \<Rightarrow> shape \<Rightarrow> bool" where
  "Rectangle_contains this (PointS s) = Rectangle_containsPoint this s"
| "Rectangle_contains this (LineS s) = Rectangle_containsLine this s"
| "Rectangle_contains this (RectangleS s) = Rectangle_containsRectangle this s"
| "Rectangle_contains this (TriangleS s) = Rectangle_containsTriangle this s"
| "Rectangle_contains this (CircleS s) = Rectangle_containsCircle this s"
| "Rectangle_contains this (RayS s) = False"

definition Rectangle_intersectsPoint :: "rectangle \<Rightarrow> point \<Rightarrow> vector2d list" where
  "Rectangle_intersectsPoint this shape =
     intersectsPointLoop (Rectangle_side this) shape [0..<Rectangle_sideCount this]"

definition Rectangle_intersectsLine :: "rectangle \<Rightarrow> line \<Rightarrow> vector2d list" where
  "Rectangle_intersectsLine this shape =
     Vector2D_filterDuplicateVectors
       (pushAll (\<lambda>i. Line_intersectsLine (Rectangle_side this i) shape) (Rectangle_sideCount this))"

definition Rectangle_intersectsRectangle :: "rectangle \<Rightarrow> rectangle \<Rightarrow> vector2d list" where
  "Rectangle_intersectsRectangle this shape =
     Vector2D_filterDuplicateVectors
       (pushAll (\<lambda>i. Rectangle_intersectsLine this (Rectangle_side shape i))
          (Rectangle_sideCount shape))"

subsection \<open>Circle\<close>

definition Circle_containsPoint :: "circle \<Rightarrow> point \<Rightarrow> bool" where
  "Circle_containsPoint this shape =
     (Vector2D_magnitudeSquared
        (Vector2D_subtractBy (circle_position this) (Vec (point_position shape)))
      \<le> (circle_radius this)\<^sup>2)"

definition Circle_overlapsPoint :: "circle \<Rightarrow> point \<Rightarrow> bool" where
  "Circle_overlapsPoint this shape = Circle_containsPoint this shape"

definition Circle_containsLine :: "circle \<Rightarrow> line \<Rightarrow> bool" where
  "Circle_containsLine this shape =
     (Circle_containsPoint this (Point (line_start shape))
      \<and> Circle_containsPoint this (Point (line_end shape)))"

definition Circle_containsRectangle :: "circle \<Rightarrow> rectangle \<Rightarrow> bool" where
  "Circle_containsRectangle this shape =
     (Circle_containsPoint this (Point (rect_position shape))
      \<and> Circle_containsPoint this
          (Point (Vector2D (vx (rect_position shape) + vy (rect_position shape))
                    (vy (rect_position shape))))
      \<and> Circle_containsPoint this
          (Point (Vector2D (vx (rect_position shape))
                    (vy (rect_position shape) + vy (rect_dimensions shape))))
      \<and> Circle_containsPoint this
          (Point (Vector2D_addBy (rect_position shape) (Vec (rect_dimensions shape)))))"

definition Circle_containsTriangle :: "circle \<Rightarrow> triangle \<Rightarrow> bool" where
  "Circle_containsTriangle this shape =
     (Circle_containsPoint this (Point (Triangle_position shape 0))
      \<and> Circle_containsPoint this (Point (Triangle_position shape 1))
      \<and> Circle_containsPoint this (Point (Triangle_position shape 2)))"

definition Circle_containsCircle :: "circle \<Rightarrow> circle \<Rightarrow> bool" where
  "Circle_containsCircle this shape =
     (sqrt ((vx (circle_position shape) - vx (circle_position this))\<^sup>2
            + (vy (circle_position shape) - vy (circle_position this))\<^sup>2)
        + circle_radius shape
      \<le> circle_radius this)"

fun Circle_contains :: "circle \<Rightarrow> shape \<Rightarrow> bool" where
  "Circle_contains this (PointS s) = Circle_containsPoint this s"
| "Circle_contains this (LineS s) = Circle_containsLine this s"
| "Circle_contains this (RectangleS s) = Circle_containsRectangle this s"
| "Circle_contains this (TriangleS s) = Circle_containsTriangle this s"
| "Circle_contains this (CircleS s) = Circle_containsCircle this s"
| "Circle_contains this (RayS s) = False"

definition Circle_intersectsPoint :: "circle \<Rightarrow> point \<Rightarrow> vector2d list" where
  "Circle_intersectsPoint this shape =
     (if \<bar>Vector2D_magnitudeSquared
            (Vector2D_subtractBy (point_position shape) (Vec (circle_position this)))
          - (circle_radius this)\<^sup>2\<bar> \<le> Vector2D_epsilon
      then [point_position shape] else [])"

definition Circle_intersectsLine :: "circle \<Rightarrow> line \<Rightarrow> vector2d list" where
  "Circle_intersectsLine this shape =
     (let closestPoint = Line_closestPoint shape (Point (circle_position this))
      in if \<not> Circle_overlapsPoint this (Point closestPoint) then []
         else
           (let d = Line_vector shape;
                unitLine =
                  Vector2D_dot d (Vector2D_subtractBy (circle_position this) (Vec (line_start shape)))
                  / Vector2D_magnitudeSquared d;
                closestPointToLine =
                  Vector2D_multiply (Vector2D_addBy (line_start shape) (Num unitLine)) (Vec d);
                distToLine =
                  Vector2D_magnitudeSquared
                    (Vector2D_subtractBy (circle_position this) (Vec closestPointToLine))
            in if \<bar>distToLine - (circle_radius this)\<^sup>2\<bar> < Vector2D_epsilon
               then [closestPointToLine]
               else
                 (let length = sqrt ((circle_radius this)\<^sup>2 - distToLine);
                      p1 = Vector2D_multiply
                             (Vector2D_addBy closestPointToLine
                                (Vec (Vector2D_normalized (Line_vector shape))))
                             (Num length);
                      p2 = Vector2D_multiply
                             (Vector2D_subtractBy closestPointToLine
                                (Vec (Vector2D_normalized (Line_vector shape))))
                             (Num length);
                      intersections =
                        (if Vector2D_magnitudeSquared
                              (Vector2D_subtractBy p1 (Vec (Line_closestPoint shape (Point p1))))
                            < Vector2D_epsilon\<^sup>2
                         then [p1] else [])
                        @ (if Vector2D_magnitudeSquared
                                (Vector2D_subtractBy p2 (Vec (Line_closestPoint shape (Point p2))))
                              < Vector2D_epsilon\<^sup>2
                           then [p2] else [])
                  in Vector2D_filterDuplicateVectors intersections)))"

definition Circle_intersectsRectangle :: "circle \<Rightarrow> rectangle \<Rightarrow> vector2d list" where
  "Circle_intersectsRectangle this shape =
     pushAll (\<lambda>i. Circle_intersectsLine this (Rectangle_side shape i)) (Rectangle_sideCount shape)"

definition Circle_intersectsCircle :: "circle \<Rightarrow> circle \<Rightarrow> vector2d list" where
  "Circle_intersectsCircle this shape =
     (if Vector2D_eq (circle_position this) (circle_position shape) then []
      else
        (let between = Vector2D_subtractBy (circle_position shape) (Vec (circle_position this));
             dist2 = Vector2D_magnitudeSquared between;
             radiusSum = circle_radius this + circle_radius shape
         in if dist2 > radiusSum\<^sup>2 then []
            else if Circle_containsCircle this shape \<or> Circle_containsCircle shape this then []
            else if dist2 = radiusSum
              then [Vector2D_multiply
                      (Vector2D_addBy (circle_position this) (Vec (Vector2D_normalized between)))
                      (Num (circle_radius this))]
            else
              (let dist = sqrt dist2;
                   ccDist = (dist2 + (circle_radius this)\<^sup>2 - (circle_radius shape)\<^sup>2) / (2 * dist);
                   chordCenter =
                     Vector2D_multiply
                       (Vector2D_addBy (circle_position this) (Vec (Vector2D_normalized between)))
                       (Num ccDist);
                   halfChord =
                     Vector2D_multiply (Vector2D_perp (Vector2D_normalized between))
                       (Num (sqrt ((circle_radius this)\<^sup>2 - ccDist\<^sup>2)))
               in [Vector2D_addBy chordCenter (Vec halfChord),
                   Vector2D_subtractBy chordCenter (Vec halfChord)])))"

subsection \<open>Ray\<close>

definition Ray_containsPoint :: "ray \<Rightarrow> point \<Rightarrow> bool" where
  "Ray_containsPoint this shape =
     (let originToPoint = Vector2D_subtractBy (point_position shape) (Vec (ray_origin this));
          dotProduct = Vector2D_dot originToPoint (ray_direction this)
      in if dotProduct < 0 then False
         else
           (let projection =
                  Vector2D (vx (ray_direction this) * dotProduct) (vy (ray_direction this) * dotProduct);
                distance =
                  sqrt ((vx projection - vx originToPoint)\<^sup>2 + (vy projection - vy originToPoint)\<^sup>2)
            in distance < Vector2D_epsilon))"

fun Ray_contains :: "ray \<Rightarrow> shape \<Rightarrow> bool" where
  "Ray_contains this (PointS s) = Ray_containsPoint this s"
| "Ray_contains this s = False"

definition Ray_intersectsPoint :: "ray \<Rightarrow> point \<Rightarrow> vector2d list" where
  "Ray_intersectsPoint this shape =
     (let line = Line (ray_origin this) (Vector2D_addBy (ray_origin this) (Vec (ray_direction this)))
      in if \<bar>Line_side line (point_position shape)\<bar> < Vector2D_epsilon
         then [point_position shape] else [])"

definition Ray_intersectsLine :: "ray \<Rightarrow> line \<Rightarrow> vector2d list" where
  "Ray_intersectsLine this shape =
     (let lineDir = Line_vector shape;
          lineToOrigin = Vector2D_subtractBy (line_start shape) (Vec (ray_origin this));
          crossProduct1 = Vector2D_cross (ray_direction this) lineDir;
          crossProduct2 = Vector2D_cross lineToOrigin lineDir
      in if crossProduct1 = 0
         then (if crossProduct2 = 0 then [ray_origin this] else [])
         else
           (let crossProduct3 = Vector2D_cross lineToOrigin (ray_direction this);
                t1 = crossProduct2 / crossProduct1;
                t2 = crossProduct3 / crossProduct1
            in if t1 \<ge> 0 \<and> t2 \<ge> 0 \<and> t2 \<le> 1
               then [Vector2D_multiply
                       (Vector2D_addBy (ray_origin this) (Vec (ray_direction this))) (Num t1)]
               else []))"

definition Ray_intersectsRectangle :: "ray \<Rightarrow> rectangle \<Rightarrow> vector2d list" where
  "Ray_intersectsRectangle this shape =
     Vector2D_filterDuplicateVectors
       (pushAll (\<lambda>i. Ray_intersectsLine this (Rectangle_side shape i)) (Rectangle_sideCount shape))"

definition Ray_intersectsTriangle :: "ray \<Rightarrow> triangle \<Rightarrow> vector2d list" where
  "Ray_intersectsTriangle this shape =
     Vector2D_filterDuplicateVectors
       (pushAll (\<lambda>i. Ray_intersectsLine this (Triangle_side shape i)) (Triangle_sideCount shape))"

definition Ray_intersectsCircle :: "ray \<Rightarrow> circle \<Rightarrow> vector2d list" where
  "Ray_intersectsCircle this shape =
     (let A = Vector2D_magnitudeSquared (ray_direction this);
          B = 2 * (Vector2D_dot (ray_origin this) (ray_direction this)
                   - Vector2D_dot (circle_position shape) (ray_direction this));
          C = Vector2D_magnitudeSquared (circle_position shape)
              + Vector2D_magnitudeSquared (ray_origin this)
              - 2 * vx (circle_position shape) * vx (ray_origin this)
              - 2 * vy (circle_position shape) * vy (ray_origin this)
              - (circle_radius shape)\<^sup>2;
          D = B\<^sup>2 - 4 * A * C
      in if D < 0 then []
         else
           (let sqrtD = sqrt D;
                s1 = (B * - 1 + sqrtD) / (2 * A);
                s2 = (B * - 1 - sqrtD) / (2 * A)
            in if s1 < 0 \<and> s2 < 0 then []
               else if s1 < 0
                 then [Vector2D_addBy (ray_origin this)
                         (Vec (Vector2D_multiply (ray_direction this) (Num s2)))]
               else if s2 < 0
                 then [Vector2D_addBy (ray_origin this)
                         (Vec (Vector2D_multiply (ray_direction this) (Num s1)))]
               else
                 (case minMax s1 s2 of
                    (minS, maxS) \<Rightarrow>
                      [Vector2D_addBy (ray_origin this)
                         (Vec (Vector2D_multiply (ray_direction this) (Num minS))),
                       Vector2D_addBy (ray_origin this)
                         (Vec (Vector2D_multiply (ray_direction this) (Num maxS)))])))"

definition Ray_intersectsRay :: "ray \<Rightarrow> ray \<Rightarrow> vector2d list" where
  "Ray_intersectsRay this shape =
     (let originToOrigin = Vector2D_subtractBy (ray_origin shape) (Vec (ray_origin this));
          crossProduct1 = Vector2D_cross (ray_direction this) (ray_direction shape);
          crossProduct2 = Vector2D_cross originToOrigin (ray_direction shape)
      in if crossProduct1 = 0
         then (if crossProduct2 = 0 then [ray_origin this] else [])
         else
           (let crossProduct3 = Vector2D_cross originToOrigin (ray_direction this);
                t1 = crossProduct2 / crossProduct1;
                t2 = crossProduct3 / crossProduct1
            in if t1 \<ge> 0 \<and> t2 \<ge> 0
               then [Vector2D_addBy (ray_origin this)
                       (Vec (Vector2D_multiply (ray_direction this) (Num t1)))]
               else []))"

subsection \<open>Triangle\<close>

text \<open>
  \<open>#closestPoint\<close> reuses one \<open>Line\<close> object and overwrites first its end, then its
  start: the three lines are \<open>(p0, p1)\<close>, \<open>(p0, p2)\<close> and \<open>(p1, p2)\<close>.
\<close>

definition Triangle_closestPoint :: "triangle \<Rightarrow> point \<Rightarrow> vector2d" where
  "Triangle_closestPoint this shape =
     (let line = Line (Triangle_position this 0) (Triangle_position this 1);
          p0 = Line_closestPoint line shape;
          d0 = Vector2D_magnitudeSquared (Vector2D_subtractBy p0 (Vec (point_position shape)));
          line = Line (line_start line) (Triangle_position this 2);
          p1 = Line_closestPoint line shape;
          d1 = Vector2D_magnitudeSquared (Vector2D_subtractBy p1 (Vec (point_position shape)));
          line = Line (Triangle_position this 1) (line_end line);
          p2 = Line_closestPoint line shape;
          d2 = Vector2D_magnitudeSquared (Vector2D_subtractBy p2 (Vec (point_position shape)))
      in if d0 \<le> d1 \<and> d0 \<le> d2 then p0
         else if d1 \<le> d0 \<and> d1 \<le> d2 then p1
         else p2)"

definition Triangle_containsPoint :: "triangle \<Rightarrow> point \<Rightarrow> bool" where
  "Triangle_containsPoint this shape =
     (let p0 = Triangle_position this 0;
          p1 = Triangle_position this 1;
          p2 = Triangle_position this 2;
          A = 0.5 * (vy p1 * - 1 * vx p2
                     + vy p0 * (vx p1 * - 1 + vx p2)
                     + vx p0 * (vy p1 - vy p2)
                     + vx p1 * vy p2);
          sign = (if A < 0 then - 1 else 1);
          s = (vy p0 * vx p2 - vx p0 * vy p2
               + (vy p2 - vy p0) * vx (point_position shape)
               + (vx p0 - vx p2) * vy (point_position shape)) * sign;
          v = (vx p0 * vy p1 - vy p0 * vx p1
               + (vy p0 - vy p1) * vx (point_position shape)
               + (vx p1 - vx p0) * vy (point_position shape)) * sign
      in s \<ge> 0 \<and> v \<ge> 0 \<and> s + v \<le> 2 * A * sign)"

definition Triangle_containsLine :: "triangle \<Rightarrow> line \<Rightarrow> bool" where
  "Triangle_containsLine this shape =
     (Triangle_containsPoint this (Point (line_start shape))
      \<and> Triangle_containsPoint this (Point (line_end shape)))"

definition Triangle_containsRectangle :: "triangle \<Rightarrow> rectangle \<Rightarrow> bool" where
  "Triangle_containsRectangle this shape =
     (Triangle_containsPoint this (Point (rect_position shape))
      \<and> Triangle_containsPoint this
          (Point (Vector2D_addBy (rect_position shape) (Vec (rect_dimensions shape))))
      \<and> Triangle_containsPoint this
          (Point (Vector2D (vx (rect_position shape) + vx (rect_dimensions shape))
                    (vy (rect_position shape))))
      \<and> Triangle_containsPoint this
          (Point (Vector2D (vx (rect_position shape))
                    (vy (rect_position shape) + vy (rect_dimensions shape)))))"

definition Triangle_containsTriangle :: "triangle \<Rightarrow> triangle \<Rightarrow> bool" where
  "Triangle_containsTriangle this shape =
     (Triangle_containsPoint this (Point (Triangle_position shape 0))
      \<and> Triangle_containsPoint this (Point (Triangle_position shape 1))
      \<and> Triangle_containsPoint this (Point (Triangle_position shape 2)))"

definition Triangle_containsCircle :: "triangle \<Rightarrow> circle \<Rightarrow> bool" where
  "Triangle_containsCircle this shape =
     (Triangle_containsPoint this (Point (circle_position shape))
      \<and> Vector2D_magnitudeSquared
          (Vector2D_subtractBy (circle_position shape)
             (Vec (Triangle_closestPoint this (Point (circle_position shape)))))
        \<ge> (circle_radius shape)\<^sup>2)"

fun Triangle_contains :: "triangle \<Rightarrow> shape \<Rightarrow> bool" where
  "Triangle_contains this (PointS s) = Triangle_containsPoint this s"
| "Triangle_contains this (LineS s) = Triangle_containsLine this s"
| "Triangle_contains this (RectangleS s) = Triangle_containsRectangle this s"
| "Triangle_contains this (TriangleS s) = Triangle_containsTriangle this s"
| "Triangle_contains this (CircleS s) = Triangle_containsCircle this s"
| "Triangle_contains this (RayS s) = False"

definition Triangle_intersectsPoint :: "triangle \<Rightarrow> point \<Rightarrow> vector2d list" where
  "Triangle_intersectsPoint this shape =
     intersectsPointLoop (Triangle_side this) shape [0..<Triangle_sideCount this]"

definition Triangle_intersectsLine :: "triangle \<Rightarrow> line \<Rightarrow> vector2d list" where
  "Triangle_intersectsLine this shape =
     Vector2D_filterDuplicateVectors
       (pushAll (\<lambda>i. Line_intersectsLine (Triangle_side this i) shape) (Triangle_sideCount this))"

definition Triangle_intersectsRectangle :: "triangle \<Rightarrow> rectangle \<Rightarrow> vector2d list" where
  "Triangle_intersectsRectangle this shape =
     Vector2D_filterDuplicateVectors
       (pushAll (\<lambda>i. Triangle_intersectsLine this (Rectangle_side shape i))
          (Rectangle_sideCount shape))"

definition Triangle_intersectsTriangle :: "triangle \<Rightarrow> triangle \<Rightarrow> vector2d list" where
  "Triangle_intersectsTriangle this shape =
     Vector2D_filterDuplicateVectors
       (pushAll (\<lambda>i. Triangle_intersectsLine this (Triangle_side shape i))
          (Triangle_sideCount shape))"

definition Triangle_intersectsCircle :: "triangle \<Rightarrow> circle \<Rightarrow> vector2d list" where
  "Triangle_intersectsCircle this shape =
     Vector2D_filterDuplicateVectors
       (pushAll (\<lambda>i. Circle_intersectsLine shape (Triangle_side this i)) (Triangle_sideCount this))"

definition Triangle_intersectsRay :: "triangle \<Rightarrow> ray \<Rightarrow> vector2d list" where
  "Triangle_intersectsRay this shape =
     Vector2D_filterDuplicateVectors
       (pushAll (\<lambda>i. Ray_intersectsLine shape (Triangle_side this i)) (Triangle_sideCount this))"

subsection \<open>The public dispatchers\<close>

text \<open>
  A private method that only forwards, \<open>return shape.intersects(this)\<close>, is written as the
  method of the other class that the forwarded call reaches.
\<close>

fun Line_intersects :: "line \<Rightarrow> shape \<Rightarrow> vector2d list" where
  "Line_intersects this (PointS s) = Line_intersectsPoint this s"
| "Line_intersects this (LineS s) = Line_intersectsLine this s"
| "Line_intersects this (RectangleS s) = Rectangle_intersectsLine s this"
| "Line_intersects this (TriangleS s) = Triangle_intersectsLine s this"
| "Line_intersects this (CircleS s) = Circle_intersectsLine s this"
| "Line_intersects this (RayS s) = Ray_intersectsLine s this"

fun Rectangle_intersects :: "rectangle \<Rightarrow> shape \<Rightarrow> vector2d list" where
  "Rectangle_intersects this (PointS s) = Rectangle_intersectsPoint this s"
| "Rectangle_intersects this (LineS s) = Rectangle_intersectsLine this s"
| "Rectangle_intersects this (RectangleS s) = Rectangle_intersectsRectangle this s"
| "Rectangle_intersects this (TriangleS s) = Triangle_intersectsRectangle s this"
| "Rectangle_intersects this (CircleS s) = Circle_intersectsRectangle s this"
| "Rectangle_intersects this (RayS s) = []"

fun Triangle_intersects :: "triangle \<Rightarrow> shape \<Rightarrow> vector2d list" where
  "Triangle_intersects this (PointS s) = Triangle_intersectsPoint this s"
| "Triangle_intersects this (LineS s) = Triangle_intersectsLine this s"
| "Triangle_intersects this (RectangleS s) = Triangle_intersectsRectangle this s"
| "Triangle_intersects this (TriangleS s) = Triangle_intersectsTriangle this s"
| "Triangle_intersects this (CircleS s) = Triangle_intersectsCircle this s"
| "Triangle_intersects this (RayS s) = Triangle_intersectsRay this s"

fun Circle_intersects :: "circle \<Rightarrow> shape \<Rightarrow> vector2d list" where
  "Circle_intersects this (PointS s) = Circle_intersectsPoint this s"
| "Circle_intersects this (LineS s) = Circle_intersectsLine this s"
| "Circle_intersects this (RectangleS s) = Circle_intersectsRectangle this s"
| "Circle_intersects this (TriangleS s) = Triangle_intersectsCircle s this"
| "Circle_intersects this (CircleS s) = Circle_intersectsCircle this s"
| "Circle_intersects this (RayS s) = Ray_intersectsCircle s this"

fun Ray_intersects :: "ray \<Rightarrow> shape \<Rightarrow> vector2d list" where
  "Ray_intersects this (PointS s) = Ray_intersectsPoint this s"
| "Ray_intersects this (LineS s) = Ray_intersectsLine this s"
| "Ray_intersects this (RectangleS s) = Ray_intersectsRectangle this s"
| "Ray_intersects this (TriangleS s) = Ray_intersectsTriangle this s"
| "Ray_intersects this (CircleS s) = Ray_intersectsCircle this s"
| "Ray_intersects this (RayS s) = Ray_intersectsRay this s"

text \<open>The virtual calls \<open>shape.contains(other)\<close> and \<open>shape.intersects(other)\<close>.\<close>

fun contains :: "shape \<Rightarrow> shape \<Rightarrow> bool" where
  "contains (PointS this) shape = Point_contains this shape"
| "contains (LineS this) shape = Line_contains this shape"
| "contains (RectangleS this) shape = Rectangle_contains this shape"
| "contains (TriangleS this) shape = Triangle_contains this shape"
| "contains (CircleS this) shape = Circle_contains this shape"
| "contains (RayS this) shape = Ray_contains this shape"

fun intersects :: "shape \<Rightarrow> shape \<Rightarrow> vector2d list" where
  "intersects (PointS this) shape = Point_intersects this shape"
| "intersects (LineS this) shape = Line_intersects this shape"
| "intersects (RectangleS this) shape = Rectangle_intersects this shape"
| "intersects (TriangleS this) shape = Triangle_intersects this shape"
| "intersects (CircleS this) shape = Circle_intersects this shape"
| "intersects (RayS this) shape = Ray_intersects this shape"

section \<open>The quadtree\<close>

text \<open>
  A \<open>QuadTree\<close> object is a value of type \<open>quadtree\<close> with the five private fields of the
  class; the optional field \<open>#children\<close> is an \<open>option\<close>, and \<open>None\<close> is \<open>undefined\<close>.
  The field \<open>#depthLayer\<close> is a \<open>number\<close>, the constructor accepts any, and so it is a
  real here (NaN and the infinities, which the constructor accepts as well, are not
  among the reals). A method that mutates the object returns the new value of it, next
  to its result.
  The children of a node are reachable through that node only (the fields are private and
  no method returns a child), so rebuilding the parent around a changed child is what the
  mutation in place amounts to.
\<close>

datatype quadtreenode = QuadTreeNode (node_shape: shape)

datatype quadtreechildrenboundaries =
  QuadTreeChildrenBoundaries
    (cb_northeast: rectangle) (cb_northwest: rectangle)
    (cb_southwest: rectangle) (cb_southeast: rectangle)

datatype quadtree =
  QuadTree
    (boundary: rectangle) (depthLayer: real) (children: "quadtreechildren option")
    (childrenBoundaries: quadtreechildrenboundaries) (nodes: "quadtreenode list")
and quadtreechildren =
  QuadTreeChildren
    (northeast: quadtree) (northwest: quadtree) (southwest: quadtree) (southeast: quadtree)

definition MAX_DEPTH :: real where
  "MAX_DEPTH = 8"

text \<open>
  The four quadrants. Here the far edge of a quadrant, \<open>x + halfWidth + halfWidth\<close>, is
  the far edge \<open>x + width\<close> of the boundary; in the code both sums are rounded and may
  differ in the last place. No theorem below uses that they agree.
\<close>

definition calulateChildBoundaries ::
  "real \<Rightarrow> real \<Rightarrow> real \<Rightarrow> real \<Rightarrow> quadtreechildrenboundaries" where
  "calulateChildBoundaries x y width height =
     (let halfWidth = width / 2;
          halfHeight = height / 2;
          neBoundary = Rectangle (Vector2D (x + halfWidth) y) (Vector2D halfWidth halfHeight);
          nwBoundary = Rectangle (Vector2D x y) (Vector2D halfWidth halfHeight);
          swBoundary = Rectangle (Vector2D x (y + halfHeight)) (Vector2D halfWidth halfHeight);
          seBoundary =
            Rectangle (Vector2D (x + halfWidth) (y + halfHeight)) (Vector2D halfWidth halfHeight)
      in QuadTreeChildrenBoundaries neBoundary nwBoundary swBoundary seBoundary)"

text \<open>
  The constructor, with \<open>b\<close> for the parameter \<open>boundary\<close> and \<open>d\<close> for \<open>depthLayer\<close>;
  \<open>newQuadTree b 0\<close> is the call with the default depth.
\<close>

definition newQuadTree :: "rectangle \<Rightarrow> real \<Rightarrow> quadtree" where
  "newQuadTree b d =
     QuadTree b d None
       (calulateChildBoundaries
          (vx (rect_position b)) (vy (rect_position b))
          (vx (rect_dimensions b)) (vy (rect_dimensions b)))
       []"

definition setChildren :: "quadtree \<Rightarrow> quadtreechildren option \<Rightarrow> quadtree" where
  "setChildren this c =
     QuadTree (boundary this) (depthLayer this) c (childrenBoundaries this) (nodes this)"

definition QuadTree_subdivide :: "quadtree \<Rightarrow> quadtree" where
  "QuadTree_subdivide this =
     (if children this \<noteq> None then this
      else if depthLayer this + 1 \<ge> MAX_DEPTH then this
      else
        (let d = depthLayer this
         in setChildren this
              (Some (QuadTreeChildren
                 (newQuadTree (cb_northeast (childrenBoundaries this)) (d + 1))
                 (newQuadTree (cb_northwest (childrenBoundaries this)) (d + 1))
                 (newQuadTree (cb_southwest (childrenBoundaries this)) (d + 1))
                 (newQuadTree (cb_southeast (childrenBoundaries this)) (d + 1))))))"

text \<open>The number of levels below a node; it is used to justify the recursion of insert.\<close>

fun height :: "quadtree \<Rightarrow> nat" where
  "height (QuadTree b d None cb ns) = 0"
| "height (QuadTree b d (Some (QuadTreeChildren ne nw sw se)) cb ns) =
     Suc (max (max (height ne) (height nw)) (max (height sw) (height se)))"

text \<open>
  Three facts that the termination proof of \<open>insert\<close> needs: two about \<open>height\<close>, and
  that one layer down is one step closer to \<open>MAX_DEPTH\<close>.
\<close>

lemma ceiling_step:
  fixes d m :: real
  shows "\<lceil>m - (d + 1)\<rceil> < \<lceil>m - d\<rceil>"
proof -
  have "\<lceil>m - (d + 1)\<rceil> = \<lceil>m - d\<rceil> - 1"
    by (simp add: diff_diff_eq [symmetric] del: diff_diff_eq)
  then show ?thesis by linarith
qed

lemma height_child:
  "children t = Some c \<Longrightarrow>
     height (northeast c) < height t \<and> height (northwest c) < height t
     \<and> height (southwest c) < height t \<and> height (southeast c) < height t"
  by (cases t; cases c) auto

lemma height_leaf: "children t = None \<Longrightarrow> height t = 0"
  by (cases t) auto

text \<open>
  \<open>insert\<close> has four blocks of the same form, one per quadrant in the order north-east,
  north-west, south-west, south-east:
  \<^verbatim>\<open>
  if (this.#childrenBoundaries.northeast.contains(node.shape)) {
      if (this.#children === undefined) { this.subdivide(); }
      if (this.#children !== undefined) { return this.#children.northeast.insert(node); }
  }
  \<close>
  In each block of the model, \<open>this\<close> is rebound to the object after the conditional call of
  \<open>subdivide\<close>, and the \<open>case\<close> is the test that guards the \<open>return\<close>; its \<open>None\<close> branch
  is the fall through to the next block. The result is the returned boolean and the tree
  after the call.
\<close>

function QuadTree_insert :: "quadtree \<Rightarrow> quadtreenode \<Rightarrow> bool \<times> quadtree" where
  "QuadTree_insert this node =
     (let inNE = Rectangle_contains (cb_northeast (childrenBoundaries this)) (node_shape node);
          this = (if inNE \<and> children this = None then QuadTree_subdivide this else this)
      in case (if inNE then children this else None) of
           Some c \<Rightarrow>
             (case QuadTree_insert (northeast c) node of
                (r, ne) \<Rightarrow>
                  (r, setChildren this
                        (Some (QuadTreeChildren ne (northwest c) (southwest c) (southeast c)))))
         | None \<Rightarrow>
     (let inNW = Rectangle_contains (cb_northwest (childrenBoundaries this)) (node_shape node);
          this = (if inNW \<and> children this = None then QuadTree_subdivide this else this)
      in case (if inNW then children this else None) of
           Some c \<Rightarrow>
             (case QuadTree_insert (northwest c) node of
                (r, nw) \<Rightarrow>
                  (r, setChildren this
                        (Some (QuadTreeChildren (northeast c) nw (southwest c) (southeast c)))))
         | None \<Rightarrow>
     (let inSW = Rectangle_contains (cb_southwest (childrenBoundaries this)) (node_shape node);
          this = (if inSW \<and> children this = None then QuadTree_subdivide this else this)
      in case (if inSW then children this else None) of
           Some c \<Rightarrow>
             (case QuadTree_insert (southwest c) node of
                (r, sw) \<Rightarrow>
                  (r, setChildren this
                        (Some (QuadTreeChildren (northeast c) (northwest c) sw (southeast c)))))
         | None \<Rightarrow>
     (let inSE = Rectangle_contains (cb_southeast (childrenBoundaries this)) (node_shape node);
          this = (if inSE \<and> children this = None then QuadTree_subdivide this else this)
      in case (if inSE then children this else None) of
           Some c \<Rightarrow>
             (case QuadTree_insert (southeast c) node of
                (r, se) \<Rightarrow>
                  (r, setChildren this
                        (Some (QuadTreeChildren (northeast c) (northwest c) (southwest c) se))))
         | None \<Rightarrow>
             (if \<not> Rectangle_contains (boundary this) (node_shape node) then (False, this)
              else (True,
                    QuadTree (boundary this) (depthLayer this) (children this)
                      (childrenBoundaries this) (nodes this @ [node])))))))"
  by pat_completeness auto
termination
  apply (relation "measures [\<lambda>(t, n). height t, \<lambda>(t, n). nat \<lceil>MAX_DEPTH - depthLayer t\<rceil>]")
  apply simp
  apply (auto simp: QuadTree_subdivide_def setChildren_def newQuadTree_def height_leaf Let_def
                    ceiling_step
              dest: height_child split: if_splits)
  done

text \<open>
  A condition of an \<open>if\<close> is converted by the language's \<open>ToBoolean\<close>: \<open>undefined\<close> is
  false, and every object is true, an empty array included. These are the two kinds of
  value that the conditions of \<open>query\<close> and \<open>getAllNodes\<close> receive.
\<close>

datatype 'a jsvalue = JSUndefined | JSArray "'a list" | JSObject 'a

fun ToBoolean :: "'a jsvalue \<Rightarrow> bool" where
  "ToBoolean JSUndefined = False"
| "ToBoolean (JSArray xs) = True"
| "ToBoolean (JSObject obj) = True"

definition jsOptional :: "'a option \<Rightarrow> 'a jsvalue" where
  "jsOptional v = (case v of None \<Rightarrow> JSUndefined | Some obj \<Rightarrow> JSObject obj)"

text \<open>
  \<open>getAllNodes\<close>, \<open>query\<close> push onto the array they are given (\<open>acc\<close>, \<open>found\<close>) and
  return it; the model returns the array after the pushes. The parameter \<open>range\<close> of
  \<open>query\<close> is \<open>rng\<close>, and the counter \<open>count\<close> of \<open>size\<close> is \<open>cnt\<close>.
\<close>

fun QuadTree_getAllNodes :: "quadtree \<Rightarrow> quadtreenode list \<Rightarrow> quadtreenode list" where
  "QuadTree_getAllNodes (QuadTree b d ch cb ns) acc =
     (let acc = acc @ ns
      in if ToBoolean (jsOptional ch)
         then (case ch of
                 None \<Rightarrow> acc
               | Some (QuadTreeChildren ne nw sw se) \<Rightarrow>
                   (let acc = QuadTree_getAllNodes ne acc;
                        acc = QuadTree_getAllNodes nw acc;
                        acc = QuadTree_getAllNodes sw acc;
                        acc = QuadTree_getAllNodes se acc
                    in acc))
         else acc)"


definition queryNodes :: "shape \<Rightarrow> quadtreenode list \<Rightarrow> quadtreenode list \<Rightarrow> quadtreenode list" where
  "queryNodes rng ns found =
     foldl (\<lambda>found n.
              if ToBoolean (JSArray (intersects rng (node_shape n))) then found @ [n] else found)
       found ns"

fun QuadTree_query :: "quadtree \<Rightarrow> shape \<Rightarrow> quadtreenode list \<Rightarrow> quadtreenode list" where
  "QuadTree_query (QuadTree b d ch cb ns) rng found =
     (if \<not> ToBoolean (JSArray (Rectangle_intersects b rng)) then found
      else
        (let found = queryNodes rng ns found
         in case ch of
              None \<Rightarrow> found
            | Some (QuadTreeChildren ne nw sw se) \<Rightarrow>
                (let found =
                       (if contains rng (RectangleS (boundary ne))
                        then QuadTree_getAllNodes ne found else QuadTree_query ne rng found);
                     found =
                       (if contains rng (RectangleS (boundary nw))
                        then QuadTree_getAllNodes nw found else QuadTree_query nw rng found);
                     found =
                       (if contains rng (RectangleS (boundary sw))
                        then QuadTree_getAllNodes sw found else QuadTree_query sw rng found);
                     found =
                       (if contains rng (RectangleS (boundary se))
                        then QuadTree_getAllNodes se found else QuadTree_query se rng found)
                 in found)))"

text \<open>
  \<open>clear\<close> empties the array of the node, clears the four children and then drops them.
  The children are unreachable after that, so what is left is the node without records
  and without children.
\<close>

definition QuadTree_clear :: "quadtree \<Rightarrow> quadtree" where
  "QuadTree_clear this =
     QuadTree (boundary this) (depthLayer this) None (childrenBoundaries this) []"

definition QuadTree_resize :: "quadtree \<Rightarrow> rectangle \<Rightarrow> quadtree" where
  "QuadTree_resize this b =
     (let this = QuadTree_clear this
      in QuadTree b (depthLayer this) (children this)
           (calulateChildBoundaries
              (vx (rect_position b)) (vy (rect_position b))
              (vx (rect_dimensions b)) (vy (rect_dimensions b)))
           (nodes this))"

subsection \<open>Sequences of calls\<close>

text \<open>
  The public methods, as the calls a client can make on a tree it holds, and the tree
  after a sequence of calls. The calls that only read leave the tree as it is.
\<close>

datatype operation =
    Insert quadtreenode
  | Subdivide
  | Query shape "quadtreenode list"
  | GetAllNodes "quadtreenode list"
  | Size
  | Clear
  | Resize rectangle

fun exec :: "quadtree \<Rightarrow> operation \<Rightarrow> quadtree" where
  "exec this (Insert node) = snd (QuadTree_insert this node)"
| "exec this Subdivide = QuadTree_subdivide this"
| "exec this (Query rng found) = this"
| "exec this (GetAllNodes acc) = this"
| "exec this Size = this"
| "exec this Clear = QuadTree_clear this"
| "exec this (Resize b) = QuadTree_resize this b"

definition run :: "quadtree \<Rightarrow> operation list \<Rightarrow> quadtree" where
  "run this ops = foldl exec this ops"

text \<open>
  A sequence of inserts: the records for which \<open>insert\<close> returned \<open>true\<close>, in order, and
  the tree after the last call.
\<close>

fun insertAll :: "quadtree \<Rightarrow> quadtreenode list \<Rightarrow> quadtreenode list \<times> quadtree" where
  "insertAll this [] = ([], this)"
| "insertAll this (node # rest) =
     (case QuadTree_insert this node of
        (ok, this') \<Rightarrow>
          (case insertAll this' rest of
             (accepted, final) \<Rightarrow> ((if ok then node # accepted else accepted), final)))"

subsection \<open>Invariants\<close>

text \<open>
  \<open>depthInv\<close>: every child is one layer below its parent. \<open>boundaryInv\<close>: the boundary
  of each child is the quadrant that its parent holds for it in \<open>#childrenBoundaries\<close>.
  \<open>depths\<close> lists the \<open>depthLayer\<close> of every node of a tree, the root first, and
  \<open>layers\<close> counts the layers of a tree: one for the root, and one more for each
  generation of children below it.
\<close>

fun depthInv :: "quadtree \<Rightarrow> bool" where
  "depthInv (QuadTree b d None cb ns) = True"
| "depthInv (QuadTree b d (Some (QuadTreeChildren ne nw sw se)) cb ns) =
     (depthLayer ne = d + 1 \<and> depthLayer nw = d + 1
      \<and> depthLayer sw = d + 1 \<and> depthLayer se = d + 1
      \<and> depthInv ne \<and> depthInv nw \<and> depthInv sw \<and> depthInv se)"

fun depths :: "quadtree \<Rightarrow> real list" where
  "depths (QuadTree b d None cb ns) = [d]"
| "depths (QuadTree b d (Some (QuadTreeChildren ne nw sw se)) cb ns) =
     d # depths ne @ depths nw @ depths sw @ depths se"

definition layers :: "quadtree \<Rightarrow> nat" where
  "layers t = Suc (height t)"

fun boundaryInv :: "quadtree \<Rightarrow> bool" where
  "boundaryInv (QuadTree b d None cb ns) = True"
| "boundaryInv (QuadTree b d (Some (QuadTreeChildren ne nw sw se)) cb ns) =
     (boundary ne = cb_northeast cb \<and> boundary nw = cb_northwest cb
      \<and> boundary sw = cb_southwest cb \<and> boundary se = cb_southeast cb
      \<and> boundaryInv ne \<and> boundaryInv nw \<and> boundaryInv sw \<and> boundaryInv se)"

text \<open>
  \<open>layered\<close> strengthens \<open>depthInv\<close> for the proofs: the children of a node are at a
  layer less than \<open>MAX_DEPTH\<close>. \<open>records\<close> is the multiset of the records a tree holds.
\<close>

fun layered :: "quadtree \<Rightarrow> bool" where
  "layered (QuadTree b d None cb ns) = True"
| "layered (QuadTree b d (Some (QuadTreeChildren ne nw sw se)) cb ns) =
     (d + 1 < MAX_DEPTH
      \<and> depthLayer ne = d + 1 \<and> depthLayer nw = d + 1
      \<and> depthLayer sw = d + 1 \<and> depthLayer se = d + 1
      \<and> layered ne \<and> layered nw \<and> layered sw \<and> layered se)"

definition records :: "quadtree \<Rightarrow> quadtreenode multiset" where
  "records t = mset (QuadTree_getAllNodes t [])"

subsection \<open>Auxiliary notions for the proofs about insert\<close>

text \<open>
  The four blocks of \<open>insert\<close> differ in the quadrant only. For the proofs they are
  folded into one function over the list of quadrants, \<open>insertFrom\<close>, which is shown
  below to agree with \<open>QuadTree_insert\<close> on the list of the four quadrants in the order
  of the source. \<open>store\<close> is the tail of \<open>insert\<close> after the four blocks, and
  \<open>entered this t1\<close> says that \<open>t1\<close> is the node \<open>this\<close> at the moment a block descends
  into a child: \<open>this\<close> itself when it had children, or \<open>this\<close> with the four new children
  that \<open>subdivide\<close> made.
\<close>

datatype quadrant = NE | NW | SW | SE

fun child :: "quadrant \<Rightarrow> quadtreechildren \<Rightarrow> quadtree" where
  "child NE c = northeast c"
| "child NW c = northwest c"
| "child SW c = southwest c"
| "child SE c = southeast c"

fun setChild :: "quadrant \<Rightarrow> quadtreechildren \<Rightarrow> quadtree \<Rightarrow> quadtreechildren" where
  "setChild NE c t = QuadTreeChildren t (northwest c) (southwest c) (southeast c)"
| "setChild NW c t = QuadTreeChildren (northeast c) t (southwest c) (southeast c)"
| "setChild SW c t = QuadTreeChildren (northeast c) (northwest c) t (southeast c)"
| "setChild SE c t = QuadTreeChildren (northeast c) (northwest c) (southwest c) t"

fun quadrantBoundary :: "quadrant \<Rightarrow> quadtreechildrenboundaries \<Rightarrow> rectangle" where
  "quadrantBoundary NE cb = cb_northeast cb"
| "quadrantBoundary NW cb = cb_northwest cb"
| "quadrantBoundary SW cb = cb_southwest cb"
| "quadrantBoundary SE cb = cb_southeast cb"

definition freshChildren :: "quadtree \<Rightarrow> quadtreechildren" where
  "freshChildren this =
     QuadTreeChildren
       (newQuadTree (cb_northeast (childrenBoundaries this)) (depthLayer this + 1))
       (newQuadTree (cb_northwest (childrenBoundaries this)) (depthLayer this + 1))
       (newQuadTree (cb_southwest (childrenBoundaries this)) (depthLayer this + 1))
       (newQuadTree (cb_southeast (childrenBoundaries this)) (depthLayer this + 1))"

definition store :: "quadtree \<Rightarrow> quadtreenode \<Rightarrow> bool \<times> quadtree" where
  "store this node =
     (if \<not> Rectangle_contains (boundary this) (node_shape node) then (False, this)
      else (True, QuadTree (boundary this) (depthLayer this) (children this)
                    (childrenBoundaries this) (nodes this @ [node])))"

definition entered :: "quadtree \<Rightarrow> quadtree \<Rightarrow> bool" where
  "entered this t1 \<longleftrightarrow>
     (children this \<noteq> None \<and> t1 = this)
     \<or> (children this = None \<and> depthLayer this + 1 < MAX_DEPTH
        \<and> t1 = setChildren this (Some (freshChildren this)))"

fun insertFrom :: "quadrant list \<Rightarrow> quadtree \<Rightarrow> quadtreenode \<Rightarrow> bool \<times> quadtree" where
  "insertFrom [] this node = store this node"
| "insertFrom (q # qs) this node =
     (let inQ = Rectangle_contains (quadrantBoundary q (childrenBoundaries this)) (node_shape node);
          this = (if inQ \<and> children this = None then QuadTree_subdivide this else this)
      in case (if inQ then children this else None) of
           Some c \<Rightarrow>
             (case QuadTree_insert (child q c) node of
                (r, t) \<Rightarrow> (r, setChildren this (Some (setChild q c t))))
         | None \<Rightarrow> insertFrom qs this node)"

declare QuadTree_insert.simps [simp del]

section \<open>Vectors: \<open>neq\<close>\<close>

text \<open>
  C10. For all vectors \<open>a\<close> and \<open>b\<close>, \<open>a.neq(b)\<close> returns the same result as \<open>a.eq(b)\<close>:
  it is true exactly when both coordinates are equal, and so it is not the negation of
  \<open>eq\<close>.
\<close>

theorem neq_same_as_eq:
  "Vector2D_neq a b = Vector2D_eq a b
   \<and> Vector2D_neq a b = (vx a = vx b \<and> vy a = vy b)
   \<and> Vector2D_neq a b \<noteq> (\<not> Vector2D_eq a b)"
  by (simp add: Vector2D_neq_def Vector2D_eq_def)

section \<open>Intersections of concrete shapes\<close>

text \<open>
  C2. \<open>Line((0,0),(10,10)).intersects(Line((0,10),(10,0)))\<close> is claimed to return exactly
  one point, within epsilon of \<open>(5,5)\<close>. The method returns the empty array: \<open>cross\<close>
  computes \<open>x1 * x2 - y1 * y2\<close>, so the denominator \<open>rd\<close> is \<open>200\<close> where the
  determinant of the two directions is \<open>-200\<close>, the parameter \<open>rn\<close> is \<open>-1/2\<close>, and the
  range test rejects it.
\<close>

theorem Line_intersects_crossing_lines_empty:
  "intersects (LineS (Line (Vector2D 0 0) (Vector2D 10 10)))
     (LineS (Line (Vector2D 0 10) (Vector2D 10 0))) = []"
  by (simp add: Line_intersectsLine_def Line_vector_def Vector2D_cross_def)

text \<open>
  On the same two segments \<open>overlaps\<close>, which divides by the determinant written out,
  finds the crossing (both parameters are \<open>1/2\<close>).
\<close>

lemma Line_overlaps_crossing_lines:
  "Line_overlapsLine (Line (Vector2D 0 0) (Vector2D 10 10))
     (Line (Vector2D 0 10) (Vector2D 10 0))"
  by (simp add: Line_overlapsLine_def)

text \<open>
  C7. \<open>Circle((0,0),5).intersects(Circle((8,0),5))\<close> returns exactly two points, the
  points \<open>(4,3)\<close> and \<open>(4,-3)\<close>: both on the line \<open>x = 4\<close>, mirror images of each other.
\<close>

theorem Circle_intersects_Circle_two_points:
  "intersects (CircleS (Circle (Vector2D 0 0) 5)) (CircleS (Circle (Vector2D 8 0) 5))
   = [Vector2D 4 3, Vector2D 4 (- 3)]"
  by (simp add: Circle_intersectsCircle_def Vector2D_eq_def Vector2D_magnitudeSquared_def
        Circle_containsCircle_def Vector2D_normalized_def Vector2D_magnitude_def
        Vector2D_perp_def Let_def)

text \<open>
  C8. \<open>Ray((0,0),(1,0)).intersects(Circle((5,0),1))\<close> returns exactly two points,
  \<open>(4,0)\<close> and \<open>(6,0)\<close>, the nearer one first.
\<close>

theorem Ray_intersects_Circle_two_points:
  "intersects (RayS (Ray (Vector2D 0 0) (Vector2D 1 0))) (CircleS (Circle (Vector2D 5 0) 1))
   = [Vector2D 4 0, Vector2D 6 0]"
  by (simp add: Ray_intersectsCircle_def Vector2D_magnitudeSquared_def Vector2D_dot_def
        minMax_def Let_def)

section \<open>The quadtree: how insert proceeds\<close>

lemma subdivide_cases:
  "QuadTree_subdivide this = this
   \<or> (children this = None \<and> depthLayer this + 1 < MAX_DEPTH
      \<and> QuadTree_subdivide this = setChildren this (Some (freshChildren this)))"
  by (auto simp: QuadTree_subdivide_def freshChildren_def Let_def)

lemma subdivide_None: "children (QuadTree_subdivide this) = None \<Longrightarrow> QuadTree_subdivide this = this"
  using subdivide_cases [of this] by (auto simp: setChildren_def)

lemma subdivide_None_iff:
  "children (QuadTree_subdivide this) = None \<longleftrightarrow> children this = None \<and> depthLayer this + 1 \<ge> MAX_DEPTH"
  by (auto simp: QuadTree_subdivide_def setChildren_def Let_def)

lemma block_fall:
  "(if inQ then children (if inQ \<and> children this = None then QuadTree_subdivide this else this) else None) = None
   \<Longrightarrow> (if inQ \<and> children this = None then QuadTree_subdivide this else this) = this"
  by (auto simp: subdivide_None split: if_splits)

lemma block_fall_iff:
  "(if inQ then children (if inQ \<and> children this = None then QuadTree_subdivide this else this) else None) = None
   \<longleftrightarrow> \<not> inQ \<or> (children this = None \<and> depthLayer this + 1 \<ge> MAX_DEPTH)"
  by (auto simp: subdivide_None_iff split: if_splits)

lemma block_enter:
  "(if inQ then children (if inQ \<and> children this = None then QuadTree_subdivide this else this) else None) = Some c
   \<Longrightarrow> inQ \<and> entered this (if inQ \<and> children this = None then QuadTree_subdivide this else this)"
  using subdivide_cases [of this]
  by (auto simp: entered_def split: if_splits)


lemma insert_insertFrom: "QuadTree_insert this node = insertFrom [NE, NW, SW, SE] this node"
  by (subst QuadTree_insert.simps)
     (simp only: insertFrom.simps Let_def child.simps setChild.simps quadrantBoundary.simps store_def)

lemma insertFrom_cases:
  obtains
    (Descend) q c t1 where
      "q \<in> set qs"
      "Rectangle_contains (quadrantBoundary q (childrenBoundaries this)) (node_shape node)"
      "entered this t1" "children t1 = Some c"
      "insertFrom qs this node =
         (fst (QuadTree_insert (child q c) node),
          setChildren t1 (Some (setChild q c (snd (QuadTree_insert (child q c) node)))))"
  | (Store)
      "(children this = None \<and> depthLayer this + 1 \<ge> MAX_DEPTH)
       \<or> (\<forall>q\<in>set qs. \<not> Rectangle_contains (quadrantBoundary q (childrenBoundaries this)) (node_shape node))"
      "insertFrom qs this node = store this node"
proof (induction qs arbitrary: thesis)
  case Nil
  then show ?case by simp
next
  case (Cons q qs)
  define inQ where "inQ = Rectangle_contains (quadrantBoundary q (childrenBoundaries this)) (node_shape node)"
  define t1 where "t1 = (if inQ \<and> children this = None then QuadTree_subdivide this else this)"
  have eq: "insertFrom (q # qs) this node =
      (case (if inQ then children t1 else None) of
           Some c \<Rightarrow>
             (case QuadTree_insert (child q c) node of
                (r, t) \<Rightarrow> (r, setChildren t1 (Some (setChild q c t))))
         | None \<Rightarrow> insertFrom qs t1 node)"
    by (simp only: insertFrom.simps Let_def inQ_def t1_def)
  show ?case
  proof (cases "if inQ then children t1 else None")
    case (Some c)
    then have e: "inQ" "entered this t1" "children t1 = Some c"
      using block_enter [of inQ this c] by (auto simp: t1_def split: if_splits)
    have "insertFrom (q # qs) this node =
         (fst (QuadTree_insert (child q c) node),
          setChildren t1 (Some (setChild q c (snd (QuadTree_insert (child q c) node)))))"
      unfolding eq Some by (simp split: prod.splits)
    then show ?thesis using e Cons.prems(1) [of q t1 c] by (simp add: inQ_def)
  next
    case None
    then have f1: "t1 = this" unfolding t1_def by (rule block_fall)
    have n1: "\<not> inQ \<or> (children this = None \<and> depthLayer this + 1 \<ge> MAX_DEPTH)"
      using None unfolding t1_def by (simp only: block_fall_iff)
    have "(if inQ then children this else None) = None" using None unfolding f1 .
    then have eq': "insertFrom (q # qs) this node = insertFrom qs this node"
      unfolding eq f1 by simp
    show ?thesis
    proof (rule Cons.IH)
      fix q' c t1'
      assume "q' \<in> set qs"
        "Rectangle_contains (quadrantBoundary q' (childrenBoundaries this)) (node_shape node)"
        "entered this t1'" "children t1' = Some c"
        "insertFrom qs this node =
         (fst (QuadTree_insert (child q' c) node),
          setChildren t1' (Some (setChild q' c (snd (QuadTree_insert (child q' c) node)))))"
      then show ?thesis using Cons.prems(1) [of q' t1' c] eq' by simp
    next
      assume "(children this = None \<and> depthLayer this + 1 \<ge> MAX_DEPTH)
       \<or> (\<forall>q\<in>set qs. \<not> Rectangle_contains (quadrantBoundary q (childrenBoundaries this)) (node_shape node))"
        "insertFrom qs this node = store this node"
      then show ?thesis using Cons.prems(2) eq' n1 by (auto simp: inQ_def)
    qed
  qed
qed

lemma insert_cases [case_names Descend Store]:
  obtains
    (Descend) q c t1 where
      "Rectangle_contains (quadrantBoundary q (childrenBoundaries this)) (node_shape node)"
      "entered this t1" "children t1 = Some c"
      "QuadTree_insert this node =
         (fst (QuadTree_insert (child q c) node),
          setChildren t1 (Some (setChild q c (snd (QuadTree_insert (child q c) node)))))"
  | (Store)
      "(children this = None \<and> depthLayer this + 1 \<ge> MAX_DEPTH)
       \<or> (\<forall>q. \<not> Rectangle_contains (quadrantBoundary q (childrenBoundaries this)) (node_shape node))"
      "QuadTree_insert this node = store this node"
proof (cases rule: insertFrom_cases [of "[NE, NW, SW, SE]" this node])
  case (Descend q c t1)
  then show ?thesis using that(1) [of q t1 c] by (simp add: insert_insertFrom)
next
  case Store
  have "\<not> Rectangle_contains (quadrantBoundary q (childrenBoundaries this)) (node_shape node)"
    if "\<forall>q\<in>set [NE, NW, SW, SE].
          \<not> Rectangle_contains (quadrantBoundary q (childrenBoundaries this)) (node_shape node)" for q
    using that by (cases q) simp_all
  then show ?thesis using Store that(2) by (auto simp: insert_insertFrom)
qed

lemma entered_child_measure:
  assumes "entered this t1" "children t1 = Some c"
  shows "height (child q c) < height this
         \<or> (height (child q c) = height this
            \<and> nat \<lceil>MAX_DEPTH - depthLayer (child q c)\<rceil> < nat \<lceil>MAX_DEPTH - depthLayer this\<rceil>)"
proof -
  from assms(1) consider
      (old) "children this \<noteq> None" "t1 = this"
    | (new) "children this = None" "depthLayer this + 1 < MAX_DEPTH"
            "t1 = setChildren this (Some (freshChildren this))"
    by (auto simp: entered_def)
  then show ?thesis
  proof cases
    case old
    then show ?thesis using height_child [of this c] assms(2) by (cases q) auto
  next
    case new
    then have "c = freshChildren this" using assms(2) by (simp add: setChildren_def)
    then show ?thesis using new height_leaf [of this]
      by (cases q) (auto simp: freshChildren_def newQuadTree_def ceiling_step)
  qed
qed

lemma insert_induct [case_names step]:
  assumes step: "\<And>this. (\<And>q c t1. entered this t1 \<Longrightarrow> children t1 = Some c \<Longrightarrow> P (child q c)) \<Longrightarrow> P this"
  shows "P this"
proof -
  have "wf (inv_image (less_than <*lex*> less_than)
              (\<lambda>t. (height t, nat \<lceil>MAX_DEPTH - depthLayer t\<rceil>)))"
    by (intro wf_inv_image wf_lex_prod wf_less_than)
  then show ?thesis
  proof (induct this rule: wf_induct_rule)
    case (less this)
    show ?case
    proof (rule step)
      fix q c t1
      assume "entered this t1" "children t1 = Some c"
      from entered_child_measure [OF this, of q]
      show "P (child q c)" by (intro less) auto
    qed
  qed
qed



subsection \<open>query\<close>

lemma queryNodes_all: "queryNodes rng ns found = found @ ns"
  unfolding queryNodes_def by (induction ns arbitrary: found) simp_all

lemma query_eq_getAllNodes: "QuadTree_query t rng found = QuadTree_getAllNodes t found"
  by (induction t arbitrary: found rule: height.induct)
     (simp_all add: queryNodes_all jsOptional_def Let_def)

lemma getAllNodes_acc: "QuadTree_getAllNodes t acc = acc @ QuadTree_getAllNodes t []"
proof (induction t arbitrary: acc rule: height.induct)
  case (1 b d cb ns)
  show ?case by (simp add: jsOptional_def)
next
  case (2 b d ne nw sw se cb ns)
  show ?case
    apply (simp add: jsOptional_def)
    apply (subst "2.IH"(4))
    apply (subst "2.IH"(3))
    apply (subst "2.IH"(2))
    apply (subst "2.IH"(1))
    apply (subst (2) "2.IH"(4))
    apply (subst (2) "2.IH"(3))
    apply (subst (2) "2.IH"(2))
    apply (subst (2) "2.IH"(1))
    apply simp
    done
qed

lemma records_Leaf: "records (QuadTree b d None cb ns) = mset ns"
  by (simp add: records_def jsOptional_def)

lemma records_Node:
  "records (QuadTree b d (Some (QuadTreeChildren ne nw sw se)) cb ns) =
     mset ns + records ne + records nw + records sw + records se"
  unfolding records_def
  apply (simp add: jsOptional_def)
  apply (subst getAllNodes_acc [of se])
  apply (subst getAllNodes_acc [of sw])
  apply (subst getAllNodes_acc [of nw])
  apply (subst getAllNodes_acc [of ne])
  apply simp
  done


lemma records_fresh:
  "children this = None \<Longrightarrow> records (setChildren this (Some (freshChildren this))) = records this"
  by (cases this)
     (simp add: setChildren_def freshChildren_def newQuadTree_def records_Leaf records_Node)

lemma records_entered: "entered this t1 \<Longrightarrow> records t1 = records this"
  by (auto simp: entered_def records_fresh)

lemma records_setChild:
  "children t1 = Some c \<Longrightarrow>
     records (setChildren t1 (Some (setChild q c x))) + records (child q c) = records t1 + records x"
  by (cases t1; cases c; cases q) (simp_all add: setChildren_def records_Node)

lemma records_store:
  "records (snd (store this node)) = records this + (if fst (store this node) then {#node#} else {#})"
  by (cases this; cases "children this"; cases "the (children this)")
     (auto simp: store_def records_Leaf records_Node)

lemma insert_records:
  "records (snd (QuadTree_insert this node))
   = records this + (if fst (QuadTree_insert this node) then {#node#} else {#})"
proof (induction this rule: insert_induct)
  case (step this)
  show ?case
  proof (cases this node rule: insert_cases)
    case (Descend q c t1)
    let ?r = "QuadTree_insert (child q c) node"
    have IH: "records (snd ?r) = records (child q c) + (if fst ?r then {#node#} else {#})"
      using Descend(2,3) by (rule step)
    have "records (snd (QuadTree_insert this node)) + records (child q c) = records t1 + records (snd ?r)"
      using records_setChild [OF Descend(3)] Descend(4) by simp
    then show ?thesis using IH records_entered [OF Descend(2)] Descend(4) by simp
  next
    case Store
    then show ?thesis using records_store [of this node] by simp
  qed
qed

subsection \<open>fields that insert keeps\<close>

lemma entered_fields:
  "entered this t1 \<Longrightarrow>
     boundary t1 = boundary this \<and> depthLayer t1 = depthLayer this
     \<and> childrenBoundaries t1 = childrenBoundaries this \<and> nodes t1 = nodes this"
  by (auto simp: entered_def setChildren_def)

lemma insert_fields:
  "boundary (snd (QuadTree_insert this node)) = boundary this
   \<and> depthLayer (snd (QuadTree_insert this node)) = depthLayer this
   \<and> childrenBoundaries (snd (QuadTree_insert this node)) = childrenBoundaries this"
proof (cases this node rule: insert_cases)
  case (Descend q c t1)
  then show ?thesis using entered_fields [OF Descend(2)] by (simp add: setChildren_def)
next
  case Store
  then show ?thesis by (simp add: store_def)
qed

subsection \<open>layers\<close>

lemma layered_new: "layered (newQuadTree b d)"
  by (simp add: newQuadTree_def)

lemma layered_entered: "layered this \<Longrightarrow> entered this t1 \<Longrightarrow> layered t1"
  by (cases this) (auto simp: entered_def setChildren_def freshChildren_def newQuadTree_def)

lemma layered_child: "layered t1 \<Longrightarrow> children t1 = Some c \<Longrightarrow> layered (child q c)"
  by (cases t1; cases c; cases q) simp_all

lemma layered_setChild:
  "layered t1 \<Longrightarrow> children t1 = Some c \<Longrightarrow> layered x \<Longrightarrow> depthLayer x = depthLayer (child q c)
   \<Longrightarrow> layered (setChildren t1 (Some (setChild q c x)))"
  by (cases t1; cases c; cases q) (simp_all add: setChildren_def)

lemma layered_store: "layered this \<Longrightarrow> layered (snd (store this node))"
  by (cases this; cases "children this"; cases "the (children this)") (auto simp: store_def)

lemma insert_layered: "layered this \<Longrightarrow> layered (snd (QuadTree_insert this node))"
proof (induction this rule: insert_induct)
  case (step this)
  show ?case
  proof (cases this node rule: insert_cases)
    case (Descend q c t1)
    have l1: "layered t1" using step.prems Descend(2) by (rule layered_entered)
    have "layered (snd (QuadTree_insert (child q c) node))"
      using Descend(2,3) layered_child [OF l1 Descend(3)] by (rule step.IH)
    then show ?thesis
      using layered_setChild [OF l1 Descend(3)] insert_fields [of "child q c" node] Descend(4)
      by simp
  next
    case Store
    then show ?thesis using layered_store [OF step.prems] by simp
  qed
qed

lemma layered_depthInv: "layered t \<Longrightarrow> depthInv t"
  by (induction t rule: height.induct) simp_all

lemma depths_head: "depths t = depthLayer t # tl (depths t)"
  by (induction t rule: height.induct) simp_all

lemma depths_set: "set (depths t) = insert (depthLayer t) (set (tl (depths t)))"
  by (subst depths_head) simp

lemma layered_depths_below:
  "layered t \<Longrightarrow> \<forall>d\<in>set (tl (depths t)). d < MAX_DEPTH"
proof (induction t rule: height.induct)
  case (1 b d cb ns)
  show ?case by simp
next
  case (2 b d ne nw sw se cb ns)
  have "\<forall>x\<in>set (depths c). x < MAX_DEPTH"
    if "layered c" "depthLayer c = d + 1" "\<forall>x\<in>set (tl (depths c)). x < MAX_DEPTH" for c
    using that "2.prems" by (subst depths_set) simp
  then show ?case using 2 by auto
qed

lemma layered_height:
  "layered t \<Longrightarrow> height t = 0 \<or> depthLayer t + real (height t) < MAX_DEPTH"
  by (induction t rule: height.induct) (auto simp: max_def)

subsection \<open>boundaries\<close>

lemma boundaryInv_new: "boundaryInv (newQuadTree b d)"
  by (simp add: newQuadTree_def)

lemma boundaryInv_entered: "boundaryInv this \<Longrightarrow> entered this t1 \<Longrightarrow> boundaryInv t1"
  by (cases this)
     (auto simp: entered_def setChildren_def freshChildren_def newQuadTree_def)

lemma boundaryInv_child:
  "boundaryInv t1 \<Longrightarrow> children t1 = Some c \<Longrightarrow>
     boundaryInv (child q c) \<and> boundary (child q c) = quadrantBoundary q (childrenBoundaries t1)"
  by (cases t1; cases c; cases q) simp_all

lemma boundaryInv_setChild:
  "boundaryInv t1 \<Longrightarrow> children t1 = Some c \<Longrightarrow> boundaryInv x \<Longrightarrow> boundary x = boundary (child q c)
   \<Longrightarrow> boundaryInv (setChildren t1 (Some (setChild q c x)))"
  by (cases t1; cases c; cases q) (simp_all add: setChildren_def)

lemma boundaryInv_store: "boundaryInv this \<Longrightarrow> boundaryInv (snd (store this node))"
  by (cases this; cases "children this"; cases "the (children this)") (auto simp: store_def)

lemma insert_boundaryInv: "boundaryInv this \<Longrightarrow> boundaryInv (snd (QuadTree_insert this node))"
proof (induction this rule: insert_induct)
  case (step this)
  show ?case
  proof (cases this node rule: insert_cases)
    case (Descend q c t1)
    have l1: "boundaryInv t1" using step.prems Descend(2) by (rule boundaryInv_entered)
    have "boundaryInv (snd (QuadTree_insert (child q c) node))"
      using Descend(2,3) boundaryInv_child [OF l1 Descend(3), THEN conjunct1] by (rule step.IH)
    then show ?thesis
      using boundaryInv_setChild [OF l1 Descend(3)] insert_fields [of "child q c" node] Descend(4)
      by simp
  next
    case Store
    then show ?thesis using boundaryInv_store [OF step.prems] by simp
  qed
qed

text \<open>A shape that the boundary of a node contains is accepted.\<close>

lemma insert_accepts:
  "boundaryInv this \<Longrightarrow> Rectangle_contains (boundary this) (node_shape node)
   \<Longrightarrow> fst (QuadTree_insert this node)"
proof (induction this rule: insert_induct)
  case (step this)
  show ?case
  proof (cases this node rule: insert_cases)
    case (Descend q c t1)
    have l1: "boundaryInv t1" using step.prems(1) Descend(2) by (rule boundaryInv_entered)
    note ch = boundaryInv_child [OF l1 Descend(3), of q]
    have "Rectangle_contains (boundary (child q c)) (node_shape node)"
      using ch Descend(1) entered_fields [OF Descend(2)] by simp
    then have "fst (QuadTree_insert (child q c) node)"
      using Descend(2,3) ch by (intro step.IH) simp_all
    then show ?thesis using Descend(4) by simp
  next
    case Store
    then show ?thesis using step.prems(2) by (simp add: store_def)
  qed
qed

text \<open>When insert returns false, it has stored nothing and the tree is as before.\<close>

lemma insert_false:
  assumes "boundaryInv this" "\<not> fst (QuadTree_insert this node)"
  shows "QuadTree_insert this node = (False, this)
         \<and> \<not> Rectangle_contains (boundary this) (node_shape node)"
proof (cases this node rule: insert_cases)
  case (Descend q c t1)
  have l1: "boundaryInv t1" using assms(1) Descend(2) by (rule boundaryInv_entered)
  note ch = boundaryInv_child [OF l1 Descend(3), of q]
  have "Rectangle_contains (boundary (child q c)) (node_shape node)"
    using ch Descend(1) entered_fields [OF Descend(2)] by simp
  then have "fst (QuadTree_insert (child q c) node)"
    using ch by (intro insert_accepts) simp_all
  then show ?thesis using Descend(4) assms(2) by simp
next
  case Store
  then show ?thesis using assms(2) by (auto simp: store_def split: if_splits)
qed


text \<open>
  And when a block does descend, the child accepts the record: in a tree built by the
  methods, a quadrant that contains the shape and a node that has or can make children
  give \<open>true\<close>, whatever the test of the node's own boundary would say.
\<close>

lemma insert_descends:
  assumes "boundaryInv this"
    and "Rectangle_contains (quadrantBoundary q (childrenBoundaries this)) (node_shape node)"
    and "children this \<noteq> None \<or> depthLayer this + 1 < MAX_DEPTH"
  shows "fst (QuadTree_insert this node)"
proof (rule ccontr)
  assume "\<not> fst (QuadTree_insert this node)"
  then have f: "QuadTree_insert this node = (False, this)" using insert_false [OF assms(1)] by simp
  show False
  proof (cases this node rule: insert_cases)
    case (Descend q' c t1)
    have l1: "boundaryInv t1" using assms(1) Descend(2) by (rule boundaryInv_entered)
    note ch = boundaryInv_child [OF l1 Descend(3), of q']
    have "Rectangle_contains (boundary (child q' c)) (node_shape node)"
      using ch Descend(1) entered_fields [OF Descend(2)] by simp
    then have "fst (QuadTree_insert (child q' c) node)"
      using ch by (intro insert_accepts) simp_all
    then show False using Descend(4) f by simp
  next
    case Store
    then show False using assms(2,3) by auto
  qed
qed

subsection \<open>sequences of calls\<close>

lemma subdivide_entered_or_same: "QuadTree_subdivide t = t \<or> entered t (QuadTree_subdivide t)"
  using subdivide_cases [of t] by (auto simp: entered_def)

lemma exec_layered: "layered t \<Longrightarrow> layered (exec t op)"
  using subdivide_entered_or_same [of t]
  by (cases op)
     (auto simp: insert_layered QuadTree_clear_def QuadTree_resize_def intro: layered_entered)

lemma exec_depthLayer: "depthLayer (exec t op) = depthLayer t"
  using subdivide_entered_or_same [of t] entered_fields [of t "QuadTree_subdivide t"]
  by (cases op) (auto simp: insert_fields QuadTree_clear_def QuadTree_resize_def)

lemma exec_boundaryInv: "boundaryInv t \<Longrightarrow> boundaryInv (exec t op)"
  using subdivide_entered_or_same [of t]
  by (cases op)
     (auto simp: insert_boundaryInv QuadTree_clear_def QuadTree_resize_def
           intro: boundaryInv_entered)

lemma run_snoc: "run t (ops @ [op]) = exec (run t ops) op"
  by (simp add: run_def)

lemma run_invariants:
  "layered (run (newQuadTree b d) ops) \<and> boundaryInv (run (newQuadTree b d) ops)
   \<and> depthLayer (run (newQuadTree b d) ops) = d"
proof (induction ops rule: rev_induct)
  case Nil
  have "depthLayer (newQuadTree b d) = d" by (simp add: newQuadTree_def)
  then show ?case by (simp add: run_def layered_new boundaryInv_new)
next
  case (snoc op ops)
  then show ?case by (simp add: run_snoc exec_layered exec_boundaryInv exec_depthLayer)
qed

section \<open>The quadtree: the claims\<close>

subsection \<open>Queries\<close>

lemma insertAll_records:
  "insertAll this recs = (accepted, final) \<Longrightarrow> records final = records this + mset accepted"
proof (induction recs arbitrary: this accepted final)
  case Nil
  then show ?case by simp
next
  case (Cons node rest)
  obtain ok this' where i: "QuadTree_insert this node = (ok, this')" by (cases "QuadTree_insert this node")
  obtain acc' final' where r: "insertAll this' rest = (acc', final')" by (cases "insertAll this' rest")
  have "records final' = records this' + mset acc'" using r by (rule Cons.IH)
  moreover have "records this' = records this + (if ok then {#node#} else {#})"
    using insert_records [of this node] i by simp
  ultimately show ?case using Cons.prems i r by (auto split: if_splits)
qed

lemma query_records: "mset (QuadTree_query t rng []) = records t"
  by (simp add: query_eq_getAllNodes records_def)

text \<open>
  C1. Take any tree and insert a sequence of records into it. Every record for which
  \<open>insert\<close> returned \<open>true\<close> is among the records that \<open>query\<close> returns when the range is
  the boundary rectangle of the root (with its multiplicity, when a record was inserted
  more than once).
\<close>

theorem query_root_boundary_returns_inserted:
  "insertAll this recs = (accepted, final) \<Longrightarrow>
   mset accepted \<subseteq># mset (QuadTree_query final (RectangleS (boundary final)) [])"
  by (simp add: query_records insertAll_records)

text \<open>
  An instance: of three records, the first stays at the root, the second lies outside
  and is refused, the third goes to the north-east child; the query returns the two that
  were accepted.
\<close>

theorem query_root_boundary_returns_inserted_witness:
  "fst (insertAll (newQuadTree (Rectangle (Vector2D 0 0) (Vector2D 100 100)) 0)
          [QuadTreeNode (RectangleS (Rectangle (Vector2D 40 40) (Vector2D 20 20))),
           QuadTreeNode (PointS (Point (Vector2D 200 200))),
           QuadTreeNode (CircleS (Circle (Vector2D 75 25) 10))])
   = [QuadTreeNode (RectangleS (Rectangle (Vector2D 40 40) (Vector2D 20 20))),
      QuadTreeNode (CircleS (Circle (Vector2D 75 25) 10))]
   \<and> mset [QuadTreeNode (RectangleS (Rectangle (Vector2D 40 40) (Vector2D 20 20))),
            QuadTreeNode (CircleS (Circle (Vector2D 75 25) 10))]
       \<subseteq># mset (QuadTree_query
                  (snd (insertAll (newQuadTree (Rectangle (Vector2D 0 0) (Vector2D 100 100)) 0)
                     [QuadTreeNode (RectangleS (Rectangle (Vector2D 40 40) (Vector2D 20 20))),
                      QuadTreeNode (PointS (Point (Vector2D 200 200))),
                      QuadTreeNode (CircleS (Circle (Vector2D 75 25) 10))]))
                  (RectangleS (boundary
                     (snd (insertAll (newQuadTree (Rectangle (Vector2D 0 0) (Vector2D 100 100)) 0)
                        [QuadTreeNode (RectangleS (Rectangle (Vector2D 40 40) (Vector2D 20 20))),
                         QuadTreeNode (PointS (Point (Vector2D 200 200))),
                         QuadTreeNode (CircleS (Circle (Vector2D 75 25) 10))]))))
                  [])"
proof -
  let ?t = "newQuadTree (Rectangle (Vector2D 0 0) (Vector2D 100 100)) 0"
  let ?recs = "[QuadTreeNode (RectangleS (Rectangle (Vector2D 40 40) (Vector2D 20 20))),
           QuadTreeNode (PointS (Point (Vector2D 200 200))),
           QuadTreeNode (CircleS (Circle (Vector2D 75 25) 10))]"
  have a: "fst (insertAll ?t ?recs)
    = [QuadTreeNode (RectangleS (Rectangle (Vector2D 40 40) (Vector2D 20 20))),
      QuadTreeNode (CircleS (Circle (Vector2D 75 25) 10))]"
    by (simp add: QuadTree_insert.simps newQuadTree_def calulateChildBoundaries_def
          Rectangle_containsRectangle_def Rectangle_containsPoint_def Rectangle_containsCircle_def
          Let_def QuadTree_subdivide_def MAX_DEPTH_def setChildren_def)
  show ?thesis
    using query_root_boundary_returns_inserted
            [of ?t ?recs "fst (insertAll ?t ?recs)" "snd (insertAll ?t ?recs)"] a
    by simp
qed

text \<open>
  C6. For every tree and every range, the early return at the top of \<open>query\<close>, guarded
  by \<open>!this.#boundary.intersects(range)\<close>, is not taken: \<open>intersects\<close> returns an array,
  and an array is true as a condition. The same holds for the test of each stored record
  and at every node below, so \<open>query\<close> prunes nothing: it returns the array it was given
  followed by every record of the tree, which is what \<open>getAllNodes\<close> returns.
\<close>

theorem query_never_prunes:
  "(\<not> ToBoolean (JSArray (Rectangle_intersects (boundary t) rng))) = False
   \<and> QuadTree_query t rng found = QuadTree_getAllNodes t found"
  by (simp add: query_eq_getAllNodes)

text \<open>A range far away from the tree still gets the record the tree holds.\<close>

lemma query_far_away:
  "QuadTree_query
     (snd (QuadTree_insert (newQuadTree (Rectangle (Vector2D 0 0) (Vector2D 100 100)) 0)
        (QuadTreeNode (RectangleS (Rectangle (Vector2D 40 40) (Vector2D 20 20))))))
     (RectangleS (Rectangle (Vector2D 1000 1000) (Vector2D 1 1))) []
   = [QuadTreeNode (RectangleS (Rectangle (Vector2D 40 40) (Vector2D 20 20)))]"
  by (simp add: query_eq_getAllNodes QuadTree_insert.simps newQuadTree_def
        calulateChildBoundaries_def Rectangle_containsRectangle_def Let_def jsOptional_def)

subsection \<open>When insert returns false\<close>

text \<open>
  C3 says that \<open>insert\<close> returns \<open>false\<close> only for a shape that lies entirely outside the
  root boundary, and not for one that is partly inside. The rectangle at \<open>(90,90)\<close> of
  size \<open>20 \<times> 20\<close> has its corner inside the root region \<open>(0,0)\<close>, \<open>100 \<times> 100\<close>, and overlaps
  it, and \<open>insert\<close> returns \<open>false\<close> for it.
\<close>

theorem insert_false_partly_inside:
  "fst (QuadTree_insert (newQuadTree (Rectangle (Vector2D 0 0) (Vector2D 100 100)) 0)
          (QuadTreeNode (RectangleS (Rectangle (Vector2D 90 90) (Vector2D 20 20))))) = False
   \<and> Rectangle_containsPoint (Rectangle (Vector2D 0 0) (Vector2D 100 100)) (Point (Vector2D 90 90))
   \<and> Rectangle_overlapsRectangle (Rectangle (Vector2D 0 0) (Vector2D 100 100))
        (Rectangle (Vector2D 90 90) (Vector2D 20 20))"
  by (simp add: QuadTree_insert.simps newQuadTree_def calulateChildBoundaries_def
        Rectangle_containsRectangle_def Rectangle_containsPoint_def Rectangle_overlapsRectangle_def
        Let_def)

text \<open>
  C3, as the code has it. For every tree reached from a constructed one by calls of its
  methods and every record: if \<open>insert\<close> returns \<open>false\<close>, then the root boundary does not
  contain the shape (the shape is not entirely inside the root region; it may be partly
  inside), nothing has been stored and the tree is as it was. The statement is about
  the calls of \<open>insert\<close> that return \<open>false\<close>; whether every call returns is not part of
  it.
\<close>

theorem insert_false_only_if_not_contained:
  "t = run (newQuadTree b d0) ops \<Longrightarrow> fst (QuadTree_insert t node) = False \<Longrightarrow>
   \<not> Rectangle_contains (boundary t) (node_shape node) \<and> QuadTree_insert t node = (False, t)"
  using insert_false [of t node] run_invariants [of b d0 ops] by simp

theorem insert_false_only_if_not_contained_witness:
  "fst (QuadTree_insert
          (run (newQuadTree (Rectangle (Vector2D 0 0) (Vector2D 100 100)) 0) [Subdivide])
          (QuadTreeNode (RectangleS (Rectangle (Vector2D 90 90) (Vector2D 20 20))))) = False
   \<and> \<not> Rectangle_contains
         (boundary (run (newQuadTree (Rectangle (Vector2D 0 0) (Vector2D 100 100)) 0) [Subdivide]))
         (node_shape (QuadTreeNode (RectangleS (Rectangle (Vector2D 90 90) (Vector2D 20 20)))))
   \<and> QuadTree_insert
         (run (newQuadTree (Rectangle (Vector2D 0 0) (Vector2D 100 100)) 0) [Subdivide])
         (QuadTreeNode (RectangleS (Rectangle (Vector2D 90 90) (Vector2D 20 20))))
       = (False, run (newQuadTree (Rectangle (Vector2D 0 0) (Vector2D 100 100)) 0) [Subdivide])"
proof -
  let ?t = "run (newQuadTree (Rectangle (Vector2D 0 0) (Vector2D 100 100)) 0) [Subdivide]"
  let ?n = "QuadTreeNode (RectangleS (Rectangle (Vector2D 90 90) (Vector2D 20 20)))"
  have a: "fst (QuadTree_insert ?t ?n) = False"
    by (simp add: run_def QuadTree_insert.simps newQuadTree_def calulateChildBoundaries_def
          Rectangle_containsRectangle_def Let_def QuadTree_subdivide_def MAX_DEPTH_def
          setChildren_def)
  show ?thesis
    using insert_false_only_if_not_contained
            [of ?t "Rectangle (Vector2D 0 0) (Vector2D 100 100)" 0 "[Subdivide]" ?n] a
    by simp
qed




subsection \<open>Layers\<close>

text \<open>
  C4 says that no node has a \<open>depthLayer\<close> of \<open>MAX_DEPTH\<close> or more and that the tree never
  exceeds 8 layers, for every tree, with the root at its construction depth. The
  constructor takes the depth of the root as a parameter and does not bound it: a tree
  constructed at depth \<open>8\<close> has its root there, and a tree constructed at depth \<open>-1\<close> has
  nine layers, \<open>-1\<close> to \<open>7\<close>, once a point near a corner is inserted.
\<close>

theorem depthLayer_beyond_MAX_DEPTH:
  "depthLayer (run (newQuadTree (Rectangle (Vector2D 0 0) (Vector2D 100 100)) 8) []) \<ge> MAX_DEPTH
   \<and> layers (run (newQuadTree (Rectangle (Vector2D 0 0) (Vector2D 100 100)) (- 1))
               [Insert (QuadTreeNode (PointS (Point (Vector2D 1 1))))]) = 9"
  by (simp add: run_def layers_def QuadTree_insert.simps newQuadTree_def
        calulateChildBoundaries_def Rectangle_containsPoint_def Let_def QuadTree_subdivide_def
        MAX_DEPTH_def setChildren_def)

text \<open>
  C4, as the code has it. Let a tree be constructed at a depth \<open>d0\<close> with
  \<open>0 \<le> d0 < MAX_DEPTH\<close>, as with the default \<open>0\<close>, and let any sequence of \<open>insert\<close>,
  \<open>subdivide\<close>, \<open>query\<close>, \<open>getAllNodes\<close>, \<open>size\<close>, \<open>clear\<close> and \<open>resize\<close> be called on it.
  Then every child is one layer below its parent, the root is at \<open>d0\<close>, no node has a
  \<open>depthLayer\<close> of \<open>MAX_DEPTH\<close> or more, and the tree has at most 8 layers. The depth need
  not be an integer. That the children of a node are absent or all four present is part
  of the type of the field \<open>#children\<close>.
\<close>

theorem depth_invariant:
  "0 \<le> d0 \<Longrightarrow> d0 < MAX_DEPTH \<Longrightarrow>
   depthInv (run (newQuadTree b d0) ops)
   \<and> depthLayer (run (newQuadTree b d0) ops) = d0
   \<and> (\<forall>d\<in>set (depths (run (newQuadTree b d0) ops)). d < MAX_DEPTH)
   \<and> real (layers (run (newQuadTree b d0) ops)) \<le> MAX_DEPTH"
proof -
  assume d0: "0 \<le> d0" "d0 < MAX_DEPTH"
  let ?t = "run (newQuadTree b d0) ops"
  have inv: "layered ?t" "depthLayer ?t = d0" using run_invariants [of b d0 ops] by simp_all
  have "\<forall>d\<in>set (depths ?t). d < MAX_DEPTH"
    using layered_depths_below [OF inv(1)] inv(2) d0(2) by (subst depths_set) simp
  moreover have "real (layers ?t) \<le> MAX_DEPTH"
    using layered_height [OF inv(1)] inv(2) d0 by (auto simp: layers_def MAX_DEPTH_def)
  ultimately show ?thesis using inv layered_depthInv by simp
qed

text \<open>
  An instance: in a tree constructed at depth \<open>0\<close>, a point near the corner of the root
  region goes down to layer \<open>7\<close>, the eighth, and no further.
\<close>

theorem depth_invariant_witness:
  "(0::real) \<le> 0 \<and> (0::real) < MAX_DEPTH
   \<and> depths (run (newQuadTree (Rectangle (Vector2D 0 0) (Vector2D 100 100)) 0)
             [Insert (QuadTreeNode (PointS (Point (Vector2D 1 1))))])
     = [0, 1, 1, 2, 2, 3, 3, 4, 4, 5, 5, 6, 6, 7, 7, 7, 7, 6, 6, 5, 5, 4, 4, 3, 3, 2, 2, 1, 1]
   \<and> layers (run (newQuadTree (Rectangle (Vector2D 0 0) (Vector2D 100 100)) 0)
               [Insert (QuadTreeNode (PointS (Point (Vector2D 1 1))))]) = 8
   \<and> depthInv (run (newQuadTree (Rectangle (Vector2D 0 0) (Vector2D 100 100)) 0)
                 [Insert (QuadTreeNode (PointS (Point (Vector2D 1 1))))])
   \<and> depthLayer (run (newQuadTree (Rectangle (Vector2D 0 0) (Vector2D 100 100)) 0)
                   [Insert (QuadTreeNode (PointS (Point (Vector2D 1 1))))]) = 0
   \<and> list_all (\<lambda>d. d < MAX_DEPTH)
       (depths (run (newQuadTree (Rectangle (Vector2D 0 0) (Vector2D 100 100)) 0)
                  [Insert (QuadTreeNode (PointS (Point (Vector2D 1 1))))]))
   \<and> real (layers (run (newQuadTree (Rectangle (Vector2D 0 0) (Vector2D 100 100)) 0)
                      [Insert (QuadTreeNode (PointS (Point (Vector2D 1 1))))])) \<le> MAX_DEPTH"
proof -
  let ?t = "run (newQuadTree (Rectangle (Vector2D 0 0) (Vector2D 100 100)) 0)
             [Insert (QuadTreeNode (PointS (Point (Vector2D 1 1))))]"
  note ev = run_def QuadTree_insert.simps newQuadTree_def calulateChildBoundaries_def
          Rectangle_containsPoint_def Let_def QuadTree_subdivide_def MAX_DEPTH_def setChildren_def
  have a: "depths ?t
    = [0, 1, 1, 2, 2, 3, 3, 4, 4, 5, 5, 6, 6, 7, 7, 7, 7, 6, 6, 5, 5, 4, 4, 3, 3, 2, 2, 1, 1]"
    by (simp add: ev)
  have l: "layers ?t = 8" by (simp add: layers_def ev)
  have b: "(0::real) \<le> 0" "(0::real) < MAX_DEPTH" by (simp_all add: MAX_DEPTH_def)
  show ?thesis
    using depth_invariant [of 0 "Rectangle (Vector2D 0 0) (Vector2D 100 100)"
            "[Insert (QuadTreeNode (PointS (Point (Vector2D 1 1))))]", OF b] a l b
    by (simp add: list_all_iff)
qed

text \<open>
  Another: a tree constructed at depth \<open>6.5\<close> gets children at \<open>7.5\<close>, and these get
  none.
\<close>

lemma depths_from_six_and_a_half:
  "depths (run (newQuadTree (Rectangle (Vector2D 0 0) (Vector2D 100 100)) (13 / 2))
             [Insert (QuadTreeNode (PointS (Point (Vector2D 1 1))))])
   = [13 / 2, 15 / 2, 15 / 2, 15 / 2, 15 / 2]"
  by (simp add: run_def QuadTree_insert.simps newQuadTree_def calulateChildBoundaries_def
        Rectangle_containsPoint_def Let_def QuadTree_subdivide_def MAX_DEPTH_def setChildren_def)

end
